theory Spec2Isabelle
  imports Complex_Main "HOL-Library.Char_ord" "HOL-Library.List_Lexorder"
begin

section \<open>Python values used by the backend\<close>

text \<open>
  A Python \<open>str\<close> is modelled as a \<open>string\<close> in which every \<open>char\<close> stands for one
  code point (code points below 256). \<open>len\<close> is \<open>length\<close>, and Python's comparison of
  two strings, which is lexicographic on code points, is the order on \<open>char list\<close>
  given by \<open>Char_ord\<close> and \<open>List_Lexorder\<close>. Python's unbounded \<open>int\<close> is \<open>int\<close>.
  \<open>time.time()\<close> is a parameter of every function that reads the clock; seconds are
  modelled as \<open>real\<close>, so the rounding of float subtraction is idealised.
\<close>

text \<open>\<open>str(n)\<close> for an integer: the decimal digits, with a minus sign for negatives.\<close>

function str_nat :: "nat \<Rightarrow> string" where
  "str_nat n = (if n < 10 then [''0123456789'' ! n]
                else str_nat (n div 10) @ [''0123456789'' ! (n mod 10)])"
  by pat_completeness auto
termination
  by (relation "measure id") auto

declare str_nat.simps [simp del]

definition str_int :: "int \<Rightarrow> string" where
  "str_int i = (if i < 0 then CHR ''-'' # str_nat (nat (- i)) else str_nat (nat i))"

text \<open>
  A \<open>dict\<close> whose insertion order is observable (response headers, cache entries) is
  an association list; \<open>d[k] = v\<close> overwrites in place or appends a new key at the end.
\<close>

fun dict_set :: "('k \<times> 'v) list \<Rightarrow> 'k \<Rightarrow> 'v \<Rightarrow> ('k \<times> 'v) list" where
  "dict_set [] k v = [(k, v)]"
| "dict_set ((k', v') # d) k v =
     (if k' = k then (k', v) # d else (k', v') # dict_set d k v)"

definition dict_get :: "('k \<times> 'v) list \<Rightarrow> 'k \<Rightarrow> 'v option" where
  "dict_get d k = map_of d k"

text \<open>
  \<open>xs[i:j]\<close>: negative bounds count from the end, and both bounds are clamped to the
  list, so a slice never raises.
\<close>

definition slice_bound :: "int \<Rightarrow> int \<Rightarrow> nat" where
  "slice_bound n i = nat (if i < 0 then max (i + n) 0 else min i n)"

definition py_slice :: "'a list \<Rightarrow> int \<Rightarrow> int \<Rightarrow> 'a list" where
  "py_slice xs i j =
     (let n = int (length xs); lo = slice_bound n i; hi = slice_bound n j
      in take (hi - lo) (drop lo xs))"

text \<open>
  \<open>s.strip()\<close> removes the characters for which \<open>str.isspace\<close> holds from both ends;
  below code point 256 these are 9 to 13, 28 to 32, 133 and 160.
\<close>

definition isspace :: "char \<Rightarrow> bool" where
  "isspace c = (let n = (of_char c :: nat)
                in (9 \<le> n \<and> n \<le> 13) \<or> (28 \<le> n \<and> n \<le> 32) \<or> n = 133 \<or> n = 160)"

definition strip :: "string \<Rightarrow> string" where
  "strip s = rev (dropWhile isspace (rev (dropWhile isspace s)))"

text \<open>
  Exceptions are values. \<open>ValidationError\<close> is pydantic's, a subclass of \<open>ValueError\<close>;
  its message and that of \<open>yaml.YAMLError\<close> are produced by the libraries and are not
  modelled. \<open>HTTPException\<close> carries
  the status code and the detail.
\<close>

datatype error =
    ValueError string
  | ValidationError
  | FileNotFoundError string
  | ContentError string
  | TypeError string
  | YAMLError
  | HTTPException int string

text \<open>
  The logger. A record keeps the level, the format string and the arguments, as
  \<open>logging\<close> does; \<open>ArgExc e\<close> stands for the argument \<open>str(e)\<close>. Only the calls at
  warning and error level are modelled.
\<close>

datatype level = WARNING | ERROR

datatype log_arg = ArgStr string | ArgExc error

type_synonym log_record = "level \<times> string \<times> log_arg list"

section \<open>Rate limiting (middleware.py)\<close>

record RateLimitBucket =
  requests :: "real list"

text \<open>
  \<open>buckets\<close> is a \<open>defaultdict(RateLimitBucket)\<close>: reading a missing key stores and
  returns a fresh bucket.
\<close>

record RateLimitMiddleware =
  requests_per_minute :: int
  requests_per_hour :: int
  enabled :: bool
  buckets :: "string \<rightharpoonup> RateLimitBucket"

definition buckets_getitem ::
  "(string \<rightharpoonup> RateLimitBucket) \<Rightarrow> string \<Rightarrow> RateLimitBucket \<times> (string \<rightharpoonup> RateLimitBucket)" where
  "buckets_getitem bs k =
     (case bs k of
        Some b \<Rightarrow> (b, bs)
      | None \<Rightarrow> (\<lparr>requests = []\<rparr>, bs(k \<mapsto> \<lparr>requests = []\<rparr>)))"

text \<open>
  What the middleware reads of a request: \<open>request.url.path\<close>, \<open>request.headers.get\<close>
  and the host of \<open>request.client\<close> (\<open>None\<close> when there is no client).
\<close>

record Request =
  path :: string
  header :: "string \<rightharpoonup> string"
  client :: "string option"

text \<open>
  A response: status code, body (the \<open>content\<close> argument of the constructor), media
  type, and the headers the code sets on it, in order.
\<close>

record 'b Response =
  status_code :: int
  body :: 'b
  media_type :: string
  headers :: "(string \<times> string) list"

text \<open>\<open>_get_client_ip\<close>\<close>

definition get_client_ip :: "Request \<Rightarrow> string" where
  "get_client_ip request =
     (case header request ''X-Forwarded-For'' of
        Some (c # cs) \<Rightarrow> strip (takeWhile (\<lambda>x. x \<noteq> CHR '','') (c # cs))
      | _ \<Rightarrow>
        (case header request ''X-Real-IP'' of
           Some (c # cs) \<Rightarrow> c # cs
         | _ \<Rightarrow>
           (case client request of
              Some host \<Rightarrow> host
            | None \<Rightarrow> ''unknown'')))"

text \<open>
  \<open>_is_rate_limited\<close>, with \<open>now\<close> the value of \<open>time.time()\<close>. It returns the pair
  \<open>(is_limited, headers)\<close> and the middleware with the pruned bucket stored.
\<close>

definition is_rate_limited ::
  "RateLimitMiddleware \<Rightarrow> real \<Rightarrow> string
     \<Rightarrow> (bool \<times> (string \<times> string) list) \<times> RateLimitMiddleware" where
  "is_rate_limited self now client_ip =
     (let (bucket, bs) = buckets_getitem (buckets self) client_ip;
          bucket = bucket\<lparr>requests := filter (\<lambda>t. now - t < 3600) (requests bucket)\<rparr>;
          self = self\<lparr>buckets := bs(client_ip \<mapsto> bucket)\<rparr>;
          minute_ago = now - 60;
          requests_last_minute =
            (\<Sum>t \<leftarrow> filter (\<lambda>t. t > minute_ago) (requests bucket). (1::int));
          requests_last_hour = int (length (requests bucket));
          remaining_minute = max 0 (requests_per_minute self - requests_last_minute);
          remaining_hour = max 0 (requests_per_hour self - requests_last_hour);
          hdrs = [(''X-RateLimit-Limit-Minute'', str_int (requests_per_minute self)),
                  (''X-RateLimit-Remaining-Minute'', str_int remaining_minute),
                  (''X-RateLimit-Limit-Hour'', str_int (requests_per_hour self)),
                  (''X-RateLimit-Remaining-Hour'', str_int remaining_hour)]
      in if requests_last_minute \<ge> requests_per_minute self
         then ((True, dict_set hdrs ''Retry-After'' ''60''), self)
         else if requests_last_hour \<ge> requests_per_hour self
         then ((True, dict_set hdrs ''Retry-After'' ''3600''), self)
         else ((False, hdrs), self))"

text \<open>
  \<open>dispatch\<close>. \<open>now\<close> is the clock read inside \<open>_is_rate_limited\<close>, \<open>now'\<close> the clock
  read when the request is recorded; \<open>call_next\<close> is the rest of the application.
  The result is the response, the middleware and the log.
\<close>

definition dispatch ::
  "RateLimitMiddleware \<Rightarrow> log_record list \<Rightarrow> real \<Rightarrow> real \<Rightarrow> (Request \<Rightarrow> string Response)
     \<Rightarrow> Request \<Rightarrow> string Response \<times> RateLimitMiddleware \<times> log_record list" where
  "dispatch self records now now' call_next request =
     (if \<not> enabled self \<or> path request = ''/health''
      then (call_next request, self, records)
      else
        let client_ip = get_client_ip request;
            ((is_limited, hdrs), self) = is_rate_limited self now client_ip
        in if is_limited
           then
             let records = records @ [(WARNING, ''Rate limit exceeded for IP: %s'', [ArgStr client_ip])];
                 response = \<lparr>status_code = 429,
                             body = ''{\"detail\":\"Rate limit exceeded. Please try again later.\"}'',
                             media_type = ''application/json'',
                             headers = []\<rparr>;
                 response = response\<lparr>headers := fold (\<lambda>(k, v) h. dict_set h k v) hdrs (headers response)\<rparr>
             in (response, self, records)
           else
             let (bucket, bs) = buckets_getitem (buckets self) client_ip;
                 bucket = bucket\<lparr>requests := requests bucket @ [now']\<rparr>;
                 self = self\<lparr>buckets := bs(client_ip \<mapsto> bucket)\<rparr>;
                 response = call_next request;
                 response = response\<lparr>headers := fold (\<lambda>(k, v) h. dict_set h k v) hdrs (headers response)\<rparr>
             in (response, self, records))"

text \<open>The requests stored for a client; a client without a bucket has none.\<close>

definition bucket_requests :: "RateLimitMiddleware \<Rightarrow> string \<Rightarrow> real list" where
  "bucket_requests self client_ip =
     (case buckets self client_ip of None \<Rightarrow> [] | Some b \<Rightarrow> requests b)"

section \<open>TTL cache (cache.py)\<close>

text \<open>
  \<open>cache.py\<close> builds its three caches from the class \<open>TTLCache\<close> of the \<open>cachetools\<close>
  library, which is not under \<open>src/\<close>. The class is modelled from sections 3 and 4.1
  of the specification; the functions of \<open>cache.py\<close> are translated from the source
  on top of it. The clock of the cache is the parameter \<open>now\<close>.
\<close>

text \<open>
  Modelled from the spec: \<open>CacheEntry\<close>, a value and the time at which it expires
  (the entry type of the missing \<open>TTLCache\<close> class).
\<close>

record 'v CacheEntry =
  val :: 'v
  expiresAt :: real

text \<open>
  Modelled from the spec: \<open>TTLCache\<close>, a capacity, a time to live and the entries in
  insertion order, oldest first (the missing \<open>cachetools.TTLCache\<close>).
\<close>

record ('k, 'v) TTLCache =
  maxsize :: nat
  ttl :: int
  entries :: "('k \<times> 'v CacheEntry) list"

text \<open>
  Modelled from the spec: an entry is expired once its \<open>expiresAt\<close> has passed; an
  entry written at \<open>t\<close> expires at \<open>t + ttl\<close>, and after the ttl has elapsed a read
  returns absent (part of the missing \<open>TTLCache\<close>).
\<close>

definition expired :: "'v CacheEntry \<Rightarrow> real \<Rightarrow> bool" where
  "expired e now = (expiresAt e \<le> now)"

text \<open>
  Modelled from the spec: \<open>get(key)\<close> of the missing \<open>TTLCache\<close>. Present and not
  expired: the value, with no side effect. Present and expired: the entry is removed
  and the result is absent.
\<close>

definition ttl_get :: "('k, 'v) TTLCache \<Rightarrow> 'k \<Rightarrow> real \<Rightarrow> 'v option \<times> ('k, 'v) TTLCache" where
  "ttl_get c k now =
     (case dict_get (entries c) k of
        None \<Rightarrow> (None, c)
      | Some e \<Rightarrow>
          if expired e now
          then (None, c\<lparr>entries := filter (\<lambda>(k', e'). k' \<noteq> k) (entries c)\<rparr>)
          else (Some (val e), c))"

text \<open>
  Modelled from the spec: \<open>set(key, value)\<close> of the missing \<open>TTLCache\<close>. The entry is
  (over)written with expiry \<open>now + ttl\<close>; when the key is new and the cache is at
  capacity, the least recently inserted entry is evicted before the insertion.
\<close>

definition ttl_set :: "('k, 'v) TTLCache \<Rightarrow> 'k \<Rightarrow> 'v \<Rightarrow> real \<Rightarrow> ('k, 'v) TTLCache" where
  "ttl_set c k v now =
     (let es = entries c;
          es = (if dict_get es k = None \<and> maxsize c \<le> length es then tl es else es)
      in c\<lparr>entries := dict_set es k \<lparr>val = v, expiresAt = now + real_of_int (ttl c)\<rparr>\<rparr>)"

text \<open>Modelled from the spec: \<open>clear()\<close> of the missing \<open>TTLCache\<close> removes all entries.\<close>

definition ttl_clear :: "('k, 'v) TTLCache \<Rightarrow> ('k, 'v) TTLCache" where
  "ttl_clear c = c\<lparr>entries := []\<rparr>"

text \<open>
  Modelled from the spec: \<open>size()\<close> of the missing \<open>TTLCache\<close>, the number of stored
  entries (expired entries are counted until a read removes them).
\<close>

definition ttl_size :: "('k, 'v) TTLCache \<Rightarrow> nat" where
  "ttl_size c = length (entries c)"

subsection \<open>The data the caches hold (models.py)\<close>

record PostMeta =
  slug :: string
  title :: string
  date :: string
  description :: "string option"
  tags :: "string list"

type_synonym PostSummary = PostMeta

record PostDetail =
  meta :: PostMeta
  content :: string

record PostListResponse =
  posts :: "PostSummary list"
  total :: int
  limit :: int
  offset :: int

subsection \<open>The three cache instances and their accessors\<close>

definition MAX_INDIVIDUAL_POST_CACHE :: nat where
  "MAX_INDIVIDUAL_POST_CACHE = 512"

definition POSTS_LIST_CACHE_SIZE :: nat where
  "POSTS_LIST_CACHE_SIZE = 1"

definition SLUG_MAP_CACHE_SIZE :: nat where
  "SLUG_MAP_CACHE_SIZE = 1"

text \<open>The settings the modelled code reads (\<open>config.py\<close>).\<close>

record Settings =
  cache_ttl_seconds :: int

text \<open>The module-level caches \<open>_posts_list_cache\<close>, \<open>_post_cache\<close> and \<open>_slug_map_cache\<close>.\<close>

record Caches =
  posts_list_cache :: "(string, PostSummary list) TTLCache"
  post_cache :: "(string, PostDetail) TTLCache"
  slug_map_cache :: "(string, string \<rightharpoonup> string) TTLCache"

text \<open>The caches as the module creates them at import time.\<close>

definition new_caches :: "Settings \<Rightarrow> Caches" where
  "new_caches settings =
     \<lparr>posts_list_cache =
        \<lparr>maxsize = POSTS_LIST_CACHE_SIZE, ttl = cache_ttl_seconds settings, entries = []\<rparr>,
      post_cache =
        \<lparr>maxsize = MAX_INDIVIDUAL_POST_CACHE, ttl = cache_ttl_seconds settings, entries = []\<rparr>,
      slug_map_cache =
        \<lparr>maxsize = SLUG_MAP_CACHE_SIZE, ttl = cache_ttl_seconds settings, entries = []\<rparr>\<rparr>"

definition get_posts_list_cached :: "Caches \<Rightarrow> real \<Rightarrow> PostSummary list option \<times> Caches" where
  "get_posts_list_cached cs now =
     (let (result, c) = ttl_get (posts_list_cache cs) ''posts_list'' now
      in (result, cs\<lparr>posts_list_cache := c\<rparr>))"

definition set_posts_list_cached :: "Caches \<Rightarrow> real \<Rightarrow> PostSummary list \<Rightarrow> Caches" where
  "set_posts_list_cached cs now v =
     cs\<lparr>posts_list_cache := ttl_set (posts_list_cache cs) ''posts_list'' v now\<rparr>"

definition get_post_cached :: "Caches \<Rightarrow> real \<Rightarrow> string \<Rightarrow> PostDetail option \<times> Caches" where
  "get_post_cached cs now sl =
     (let (result, c) = ttl_get (post_cache cs) sl now
      in (result, cs\<lparr>post_cache := c\<rparr>))"

definition set_post_cached :: "Caches \<Rightarrow> real \<Rightarrow> string \<Rightarrow> PostDetail \<Rightarrow> Caches" where
  "set_post_cached cs now sl v = cs\<lparr>post_cache := ttl_set (post_cache cs) sl v now\<rparr>"

definition get_slug_map_cached :: "Caches \<Rightarrow> real \<Rightarrow> (string \<rightharpoonup> string) option \<times> Caches" where
  "get_slug_map_cached cs now =
     (let (result, c) = ttl_get (slug_map_cache cs) ''slug_map'' now
      in (result, cs\<lparr>slug_map_cache := c\<rparr>))"

definition set_slug_map_cached :: "Caches \<Rightarrow> real \<Rightarrow> (string \<rightharpoonup> string) \<Rightarrow> Caches" where
  "set_slug_map_cached cs now v =
     cs\<lparr>slug_map_cache := ttl_set (slug_map_cache cs) ''slug_map'' v now\<rparr>"

definition clear_all_caches :: "Caches \<Rightarrow> Caches" where
  "clear_all_caches cs =
     cs\<lparr>posts_list_cache := ttl_clear (posts_list_cache cs),
        post_cache := ttl_clear (post_cache cs),
        slug_map_cache := ttl_clear (slug_map_cache cs)\<rparr>"

text \<open>
  A write to one of the caches, with the clock at the time of the call, and a run of
  such writes in order.
\<close>

datatype cache_write =
    SetPostsList real "PostSummary list"
  | SetPost real string PostDetail
  | SetSlugMap real "string \<rightharpoonup> string"

fun apply_write :: "Caches \<Rightarrow> cache_write \<Rightarrow> Caches" where
  "apply_write cs (SetPostsList now v) = set_posts_list_cached cs now v"
| "apply_write cs (SetPost now sl v) = set_post_cached cs now sl v"
| "apply_write cs (SetSlugMap now v) = set_slug_map_cached cs now v"

definition apply_writes :: "Caches \<Rightarrow> cache_write list \<Rightarrow> Caches" where
  "apply_writes cs ws = foldl apply_write cs ws"

section \<open>Content store (content_store.py)\<close>

text \<open>
  \<open>SLUG_PATTERN = re.compile(r"^[a-zA-Z0-9_-]+$")\<close> and \<open>SLUG_PATTERN.match(s)\<close>.
  The class matches the ASCII letters, the digits, the underscore and the hyphen.
  \<open>match\<close> anchors at the start; the greedy \<open>+\<close> takes the longest run of class
  characters (a shorter run would be followed by a class character, where \<open>$\<close>
  cannot match); without \<open>re.MULTILINE\<close>, \<open>$\<close> matches at the end of the string
  and also just before a newline that is the last character of the string.
\<close>

definition slug_char :: "char \<Rightarrow> bool" where
  "slug_char c =
     (let n = (of_char c :: nat)
      in (97 \<le> n \<and> n \<le> 122) \<or> (65 \<le> n \<and> n \<le> 90) \<or> (48 \<le> n \<and> n \<le> 57)
         \<or> c = CHR ''_'' \<or> c = CHR ''-'')"

definition SLUG_PATTERN_match :: "string \<Rightarrow> bool" where
  "SLUG_PATTERN_match s =
     (let rest = dropWhile slug_char s
      in takeWhile slug_char s \<noteq> [] \<and> (rest = [] \<or> rest = [CHR 0x0A]))"

definition MAX_SLUG_LENGTH :: nat where
  "MAX_SLUG_LENGTH = 200"

definition validate_slug :: "string \<Rightarrow> error + string" where
  "validate_slug sl =
     (if sl = [] then Inl (ValueError ''Slug cannot be empty'')
      else if length sl > MAX_SLUG_LENGTH
      then Inl (ValueError ''Slug too long (max 200 characters)'')
      else if \<not> SLUG_PATTERN_match sl
      then Inl (ValueError
        ''Invalid slug format. Use only alphanumeric characters, hyphens, and underscores.'')
      else Inr sl)"

text \<open>
  The storage behind the content store, local directory or S3 bucket, is an external
  collaborator: \<open>list_post_slugs\<close> is the outcome of the function of that name, and
  \<open>load_backend\<close> the outcome of \<open>_load_local_post\<close> or \<open>_load_s3_post\<close>, whichever
  \<open>settings.content_dir\<close> selects, for a slug.
\<close>

record Storage =
  list_post_slugs :: "error + string list"
  load_backend :: "string \<Rightarrow> error + string"

text \<open>
  The state of the service: the caches, the log, and \<open>reads\<close>, the slugs for which
  the storage backend was called, in order.
\<close>

record State =
  caches :: Caches
  logs :: "log_record list"
  reads :: "string list"

definition load_post_by_slug :: "Storage \<Rightarrow> State \<Rightarrow> string \<Rightarrow> (error + string) \<times> State" where
  "load_post_by_slug store st sl =
     (case validate_slug sl of
        Inl e \<Rightarrow> (Inl e, st)
      | Inr _ \<Rightarrow> (load_backend store sl, st\<lparr>reads := reads st @ [sl]\<rparr>))"

section \<open>The application (main.py)\<close>

text \<open>
  The values front matter can hold: null, booleans, integers, strings and sequences.
  (Floats, dates and mappings are left out.)
\<close>

datatype pyval = PNone | PBool bool | PInt int | PStr string | PList "pyval list"

text \<open>
  Library functions taken as parameters: the hex digest of \<open>hashlib.md5\<close> of an
  encoded string, \<open>frontmatter.loads\<close> (\<open>None\<close> when it raises \<open>yaml.YAMLError\<close>,
  otherwise the metadata and the content), and the \<open>repr\<close> of a list.
\<close>

record Lib =
  md5_hexdigest :: "string \<Rightarrow> string"
  frontmatter_loads :: "string \<Rightarrow> ((string \<rightharpoonup> pyval) \<times> string) option"
  repr_list :: "pyval list \<Rightarrow> string"

text \<open>\<open>str(v)\<close>, the truth value of \<open>v\<close>, and \<open>list(v)\<close>.\<close>

definition py_str :: "Lib \<Rightarrow> pyval \<Rightarrow> string" where
  "py_str lib v =
     (case v of
        PNone \<Rightarrow> ''None''
      | PBool b \<Rightarrow> (if b then ''True'' else ''False'')
      | PInt i \<Rightarrow> str_int i
      | PStr s \<Rightarrow> s
      | PList xs \<Rightarrow> repr_list lib xs)"

definition truthy :: "pyval \<Rightarrow> bool" where
  "truthy v =
     (case v of
        PNone \<Rightarrow> False
      | PBool b \<Rightarrow> b
      | PInt i \<Rightarrow> i \<noteq> 0
      | PStr s \<Rightarrow> s \<noteq> []
      | PList xs \<Rightarrow> xs \<noteq> [])"

definition py_list :: "pyval \<Rightarrow> error + pyval list" where
  "py_list v =
     (case v of
        PNone \<Rightarrow> Inl (TypeError (CHR 0x27 # ''NoneType'' @ CHR 0x27 # '' object is not iterable''))
      | PBool b \<Rightarrow> Inl (TypeError (CHR 0x27 # ''bool'' @ CHR 0x27 # '' object is not iterable''))
      | PInt i \<Rightarrow> Inl (TypeError (CHR 0x27 # ''int'' @ CHR 0x27 # '' object is not iterable''))
      | PStr s \<Rightarrow> Inr (map (\<lambda>c. PStr [c]) s)
      | PList xs \<Rightarrow> Inr xs)"

text \<open>
  \<open>xs.sort(key=f, reverse=True)\<close>: a stable sort in descending order of the key;
  elements with equal keys keep their order. CPython reverses the list, sorts it
  stably in ascending order and reverses it again.
\<close>

definition sort_reverse :: "('a \<Rightarrow> 'k::linorder) \<Rightarrow> 'a list \<Rightarrow> 'a list" where
  "sort_reverse f xs = rev (sort_key f (rev xs))"

definition generate_etag :: "Lib \<Rightarrow> string \<Rightarrow> string" where
  "generate_etag lib c = ''\"'' @ md5_hexdigest lib c @ ''\"''"

definition add_cache_headers :: "Settings \<Rightarrow> 'b Response \<Rightarrow> string option \<Rightarrow> 'b Response" where
  "add_cache_headers settings response etag =
     (let response = response\<lparr>headers :=
            dict_set (headers response) ''Cache-Control''
              (''public, max-age='' @ str_int (cache_ttl_seconds settings))\<rparr>
      in case etag of
           Some (c # cs) \<Rightarrow> response\<lparr>headers := dict_set (headers response) ''ETag'' (c # cs)\<rparr>
         | _ \<Rightarrow> response)"

definition parse_frontmatter ::
  "Lib \<Rightarrow> State \<Rightarrow> string \<Rightarrow> string \<Rightarrow> (error + (string \<rightharpoonup> pyval) \<times> string) \<times> State" where
  "parse_frontmatter lib st raw sl =
     (case frontmatter_loads lib raw of
        Some (metadata, cont) \<Rightarrow> (Inr (metadata, cont), st)
      | None \<Rightarrow>
          (Inl (ValueError (''Invalid frontmatter format in post: '' @ sl)),
           st\<lparr>logs := logs st @
             [(ERROR, ''YAML parse error in post %s: %s'', [ArgStr sl, ArgExc YAMLError])]\<rparr>))"

text \<open>
  The constructor of \<open>PostMeta\<close> (\<open>models.py\<close>; \<open>PostSummary\<close> is the same class), as
  pydantic runs it: the field validator of \<open>slug\<close> makes the three checks of
  \<open>validate_slug\<close>, \<open>description\<close> must be \<open>None\<close> or a string, and every element of
  \<open>tags\<close> must be a string; any failure raises \<open>ValidationError\<close>.
\<close>

definition is_PStr :: "pyval \<Rightarrow> bool" where
  "is_PStr v = (case v of PStr s \<Rightarrow> True | _ \<Rightarrow> False)"

definition str_of :: "pyval \<Rightarrow> string" where
  "str_of v = (case v of PStr s \<Rightarrow> s | _ \<Rightarrow> [])"

definition PostMeta_init ::
  "string \<Rightarrow> string \<Rightarrow> string \<Rightarrow> pyval \<Rightarrow> pyval list \<Rightarrow> error + PostMeta" where
  "PostMeta_init sl t d desc tgs =
     (if isl (validate_slug sl) \<or> \<not> (desc = PNone \<or> is_PStr desc) \<or> \<not> list_all is_PStr tgs
      then Inl ValidationError
      else Inr \<lparr>slug = sl, title = t, date = d,
                description = (if desc = PNone then None else Some (str_of desc)),
                tags = map str_of tgs\<rparr>)"

text \<open>
  The expression that builds the metadata of a post from its front matter, written
  twice in the source with the same text: \<open>PostSummary(slug=slug, ...)\<close> in
  \<open>list_posts\<close> and \<open>PostMeta(slug=slug, ...)\<close> in \<open>get_post\<close>. The arguments are
  evaluated first, so a \<open>tags\<close> value that \<open>list\<close> cannot iterate raises \<open>TypeError\<close>
  before the constructor runs.
\<close>

definition post_meta_of :: "Lib \<Rightarrow> string \<Rightarrow> (string \<rightharpoonup> pyval) \<Rightarrow> error + PostMeta" where
  "post_meta_of lib sl meta_dict =
     (let title_arg = py_str lib (case meta_dict ''title'' of None \<Rightarrow> PStr sl | Some v \<Rightarrow> v);
          date_arg = py_str lib (case meta_dict ''date'' of None \<Rightarrow> PStr [] | Some v \<Rightarrow> v);
          description_arg = (case meta_dict ''description'' of None \<Rightarrow> PNone | Some v \<Rightarrow> v);
          tags_val = (case meta_dict ''tags'' of None \<Rightarrow> PList [] | Some v \<Rightarrow> v)
      in case py_list (if truthy tags_val then tags_val else PList []) of
           Inl e \<Rightarrow> Inl e
         | Inr tags_arg \<Rightarrow> PostMeta_init sl title_arg date_arg description_arg tags_arg)"

text \<open>
  The body of the \<open>try\<close> in the loop of \<open>list_posts\<close>: load, parse, build the summary.
\<close>

definition load_summary :: "Lib \<Rightarrow> Storage \<Rightarrow> State \<Rightarrow> string \<Rightarrow> (error + PostSummary) \<times> State" where
  "load_summary lib store st sl =
     (case load_post_by_slug store st sl of
        (Inl e, st) \<Rightarrow> (Inl e, st)
      | (Inr raw, st) \<Rightarrow>
          (case parse_frontmatter lib st raw sl of
             (Inl e, st) \<Rightarrow> (Inl e, st)
           | (Inr (meta_dict, cont), st) \<Rightarrow> (post_meta_of lib sl meta_dict, st)))"

text \<open>What \<open>except (ValueError, FileNotFoundError)\<close> catches.\<close>

definition skipped :: "error \<Rightarrow> bool" where
  "skipped e =
     (case e of
        ValueError m \<Rightarrow> True
      | ValidationError \<Rightarrow> True
      | FileNotFoundError m \<Rightarrow> True
      | _ \<Rightarrow> False)"

text \<open>
  The loop \<open>for slug in slugs\<close> of \<open>list_posts\<close>, with \<open>acc\<close> the list \<open>all_summaries\<close>
  built so far. An exception that the \<open>except\<close> clause does not catch ends the loop
  and the request.
\<close>

fun load_summaries ::
  "Lib \<Rightarrow> Storage \<Rightarrow> State \<Rightarrow> string list \<Rightarrow> PostSummary list
     \<Rightarrow> (error + PostSummary list) \<times> State" where
  "load_summaries lib store st [] acc = (Inr acc, st)"
| "load_summaries lib store st (sl # slugs) acc =
     (case load_summary lib store st sl of
        (Inr summary, st) \<Rightarrow> load_summaries lib store st slugs (acc @ [summary])
      | (Inl e, st) \<Rightarrow>
          if skipped e
          then load_summaries lib store
                 (st\<lparr>logs := logs st @
                    [(WARNING, ''Skipping post %s due to error: %s'', [ArgStr sl, ArgExc e])]\<rparr>)
                 slugs acc
          else (Inl e, st))"

text \<open>
  The first part of \<open>list_posts\<close>, up to the pagination: the cached list, or on a
  miss the list loaded from storage, sorted and stored in the cache. \<open>now\<close> is the
  clock at the cache lookup and \<open>now'\<close> the clock when the list is cached.
\<close>

definition all_summaries_of ::
  "Lib \<Rightarrow> Storage \<Rightarrow> State \<Rightarrow> real \<Rightarrow> real \<Rightarrow> (error + PostSummary list) \<times> State" where
  "all_summaries_of lib store st now now' =
     (let (cached, cs) = get_posts_list_cached (caches st) now;
          st = st\<lparr>caches := cs\<rparr>
      in case cached of
           Some all_summaries \<Rightarrow> (Inr all_summaries, st)
         | None \<Rightarrow>
             (case list_post_slugs store of
                Inl e \<Rightarrow> (Inl e, st)
              | Inr slugs \<Rightarrow>
                  (case load_summaries lib store st slugs [] of
                     (Inl e, st) \<Rightarrow> (Inl e, st)
                   | (Inr all_summaries, st) \<Rightarrow>
                       let all_summaries = sort_reverse date all_summaries;
                           st = st\<lparr>caches := set_posts_list_cached (caches st) now' all_summaries\<rparr>
                       in (Inr all_summaries, st))))"

text \<open>
  \<open>list_posts\<close>, the handler of \<open>GET /posts\<close>, with \<open>limit'\<close> and \<open>offset'\<close> the query
  parameters \<open>limit\<close> and \<open>offset\<close>. FastAPI rejects a \<open>limit\<close> outside 1 to 100 and
  a negative \<open>offset\<close> before the handler runs.
\<close>

definition list_posts ::
  "Lib \<Rightarrow> Storage \<Rightarrow> Settings \<Rightarrow> State \<Rightarrow> real \<Rightarrow> real \<Rightarrow> int \<Rightarrow> int
     \<Rightarrow> (error + PostListResponse Response) \<times> State" where
  "list_posts lib store settings st now now' limit' offset' =
     (case all_summaries_of lib store st now now' of
        (Inl e, st) \<Rightarrow> (Inl e, st)
      | (Inr all_summaries, st) \<Rightarrow>
          let total_n = int (length all_summaries);
              paginated = py_slice all_summaries offset' (offset' + limit');
              response_data = \<lparr>posts = paginated, total = total_n, limit = limit', offset = offset'\<rparr>;
              response = \<lparr>status_code = 200, body = response_data,
                          media_type = ''application/json'', headers = []\<rparr>;
              etag = generate_etag lib (str_int total_n @ ''-'' @ str_int offset' @ ''-'' @ str_int limit')
          in (Inr (add_cache_headers settings response (Some etag)), st))"

text \<open>
  \<open>get_post\<close>, the handler of \<open>GET /post/{slug}\<close>; \<open>now\<close> is the clock at the cache
  lookup and \<open>now'\<close> the clock when the post is cached.
\<close>

definition get_post ::
  "Lib \<Rightarrow> Storage \<Rightarrow> Settings \<Rightarrow> State \<Rightarrow> real \<Rightarrow> real \<Rightarrow> string
     \<Rightarrow> (error + PostDetail Response) \<times> State" where
  "get_post lib store settings st now now' sl =
     (if \<not> SLUG_PATTERN_match sl
      then (Inl (HTTPException 400
              ''Invalid slug format. Use only alphanumeric characters, hyphens, and underscores.''),
            st\<lparr>logs := logs st @ [(WARNING, ''Invalid slug format requested: %s'', [ArgStr sl])]\<rparr>)
      else
        let (cached, cs) = get_post_cached (caches st) now sl;
            st = st\<lparr>caches := cs\<rparr>
        in case cached of
             Some detail \<Rightarrow>
               (Inr (add_cache_headers settings
                       \<lparr>status_code = 200, body = detail,
                        media_type = ''application/json'', headers = []\<rparr>
                       (Some (generate_etag lib (content detail)))), st)
           | None \<Rightarrow>
               (case load_post_by_slug store st sl of
                  (Inl (FileNotFoundError m), st) \<Rightarrow> (Inl (HTTPException 404 ''Post not found''), st)
                | (Inl e, st) \<Rightarrow> (Inl e, st)
                | (Inr raw, st) \<Rightarrow>
                    (case parse_frontmatter lib st raw sl of
                       (Inl e, st) \<Rightarrow> (Inl e, st)
                     | (Inr (meta_dict, cont), st) \<Rightarrow>
                         (case post_meta_of lib sl meta_dict of
                            Inl e \<Rightarrow> (Inl e, st)
                          | Inr m \<Rightarrow>
                              let detail = \<lparr>meta = m, content = cont\<rparr>;
                                  st = st\<lparr>caches := set_post_cached (caches st) now' sl detail\<rparr>
                              in (Inr (add_cache_headers settings
                                         \<lparr>status_code = 200, body = detail,
                                          media_type = ''application/json'', headers = []\<rparr>
                                         (Some (generate_etag lib cont))), st)))))"

section \<open>Definitions used to state the properties\<close>

text \<open>The summary a slug yields in the loop of \<open>list_posts\<close>, if it yields one.\<close>

definition summary_of :: "Lib \<Rightarrow> Storage \<Rightarrow> State \<Rightarrow> string \<Rightarrow> PostSummary option" where
  "summary_of lib store st sl =
     (case fst (load_summary lib store st sl) of Inr s \<Rightarrow> Some s | Inl e \<Rightarrow> None)"

text \<open>The warning that \<open>list_posts\<close> logs when it skips a slug.\<close>

definition skip_record :: "string \<Rightarrow> error \<Rightarrow> log_record" where
  "skip_record sl e = (WARNING, ''Skipping post %s due to error: %s'', [ArgStr sl, ArgExc e])"

text \<open>Every cache has the capacity it was created with and holds no more entries.\<close>

definition caches_ok :: "Caches \<Rightarrow> bool" where
  "caches_ok cs =
     (maxsize (posts_list_cache cs) = POSTS_LIST_CACHE_SIZE
      \<and> maxsize (post_cache cs) = MAX_INDIVIDUAL_POST_CACHE
      \<and> maxsize (slug_map_cache cs) = SLUG_MAP_CACHE_SIZE
      \<and> ttl_size (posts_list_cache cs) \<le> POSTS_LIST_CACHE_SIZE
      \<and> ttl_size (post_cache cs) \<le> MAX_INDIVIDUAL_POST_CACHE
      \<and> ttl_size (slug_map_cache cs) \<le> SLUG_MAP_CACHE_SIZE)"

text \<open>
  A small site for concrete runs: four posts that load, one slug without a file and
  one file whose front matter does not parse. The digest, the front matter parser
  and the list \<open>repr\<close> are stand-ins for the library functions.
\<close>

definition example_lib :: Lib where
  "example_lib =
     \<lparr>md5_hexdigest = (\<lambda>s. ''md5:'' @ s),
      frontmatter_loads = (\<lambda>raw.
         if raw = ''new'' then Some ([''title'' \<mapsto> PStr ''New'', ''date'' \<mapsto> PStr ''2024-01-15''], ''n'')
         else if raw = ''old'' then Some ([''date'' \<mapsto> PStr ''2024-01-10''], ''o'')
         else if raw = ''broken'' then None
         else Some (Map.empty, raw)),
      repr_list = (\<lambda>xs. ''[]'')\<rparr>"

definition example_store :: Storage where
  "example_store =
     \<lparr>list_post_slugs = Inr [''old-post'', ''gone'', ''plain'', ''new-post'', ''bad-yaml'', ''notes''],
      load_backend = (\<lambda>sl.
         if sl = ''old-post'' then Inr ''old''
         else if sl = ''new-post'' then Inr ''new''
         else if sl = ''plain'' then Inr ''text''
         else if sl = ''notes'' then Inr ''more text''
         else if sl = ''bad-yaml'' then Inr ''broken''
         else Inl (FileNotFoundError sl))\<rparr>"

definition example_settings :: Settings where
  "example_settings = \<lparr>cache_ttl_seconds = 300\<rparr>"

definition example_state :: State where
  "example_state = \<lparr>caches = new_caches example_settings, logs = [], reads = []\<rparr>"

definition example_listing :: "PostSummary list" where
  "example_listing =
     [\<lparr>slug = ''new-post'', title = ''New'', date = ''2024-01-15'', description = None, tags = []\<rparr>,
      \<lparr>slug = ''old-post'', title = ''old-post'', date = ''2024-01-10'', description = None, tags = []\<rparr>,
      \<lparr>slug = ''plain'', title = ''plain'', date = [], description = None, tags = []\<rparr>,
      \<lparr>slug = ''notes'', title = ''notes'', date = [], description = None, tags = []\<rparr>]"

text \<open>A post detail to store in the per-post cache.\<close>

definition example_detail :: PostDetail where
  "example_detail =
     \<lparr>meta = \<lparr>slug = ''hello'', title = ''Hello'', date = ''2024-01-15'',
              description = None, tags = []\<rparr>,
      content = ''text''\<rparr>"

text \<open>Another listing of the same length, already in the posts-list cache.\<close>

definition other_listing :: "PostSummary list" where
  "other_listing =
     [\<lparr>slug = ''a'', title = ''A'', date = ''2023-03-03'', description = None, tags = []\<rparr>,
      \<lparr>slug = ''b'', title = ''B'', date = ''2023-02-02'', description = None, tags = []\<rparr>,
      \<lparr>slug = ''c'', title = ''C'', date = ''2023-01-01'', description = None, tags = []\<rparr>,
      \<lparr>slug = ''d'', title = ''D'', date = ''2022-01-01'', description = None, tags = []\<rparr>]"

definition other_state :: State where
  "other_state =
     example_state\<lparr>caches := set_posts_list_cached (caches example_state) 0 other_listing\<rparr>"

text \<open>
  A site with three slugs: \<open>gone\<close> has no file, \<open>t\<close> holds the text \<open>raw\<close>, and
  \<open>z\<close> is a plain post. The parser stand-in reads \<open>tags: 5\<close> and \<open>description: 5\<close>
  as front matter with that one integer field.
\<close>

definition tags_lib :: Lib where
  "tags_lib =
     \<lparr>md5_hexdigest = (\<lambda>s. ''md5:'' @ s),
      frontmatter_loads = (\<lambda>raw.
         if raw = ''tags: 5'' then Some ([''tags'' \<mapsto> PInt 5], [])
         else if raw = ''description: 5'' then Some ([''description'' \<mapsto> PInt 5], [])
         else Some (Map.empty, raw)),
      repr_list = (\<lambda>xs. ''[]'')\<rparr>"

definition tags_store :: "string \<Rightarrow> Storage" where
  "tags_store raw =
     \<lparr>list_post_slugs = Inr [''gone'', ''t'', ''z''],
      load_backend = (\<lambda>sl.
         if sl = ''t'' then Inr raw
         else if sl = ''z'' then Inr ''text''
         else Inl (FileNotFoundError sl))\<rparr>"

section \<open>Properties\<close>

subsection \<open>Rate limiting\<close>

lemma prune_filter_eq: "filter (\<lambda>t. now - t < (3600::real)) ts = filter (\<lambda>t. now - 3600 < t) ts"
  by (rule filter_cong) auto

lemma count_ones: "(\<Sum>t \<leftarrow> ts. (1::int)) = int (length ts)"
  by (simp add: sum_list_triv)

lemma bucket_update_eq: "(b::RateLimitBucket)\<lparr>requests := ts\<rparr> = \<lparr>requests = ts\<rparr>"
  by (cases b) simp

text \<open>
  C1. The rate-limit check first keeps only the timestamps less than one hour old,
  so every timestamp older than \<open>now - 3600\<close> is removed (one that is exactly 3600
  seconds old is removed too). \<open>minuteCount\<close> counts the kept timestamps later than
  \<open>now - 60\<close> and \<open>hourCount\<close> all kept timestamps. It denies with Retry-After 60
  when \<open>minuteCount\<close> has reached \<open>requests_per_minute\<close>, otherwise denies with
  Retry-After 3600 when \<open>hourCount\<close> has reached \<open>requests_per_hour\<close>, otherwise
  allows; in all three cases the headers carry the remaining quotas
  \<open>max 0 (limit - count)\<close>. The minute window is checked first.
\<close>

theorem is_rate_limited_algorithm:
  "is_rate_limited self now client_ip = ((is_limited, hdrs), self') \<Longrightarrow>
   (let old = bucket_requests self client_ip;
        kept = filter (\<lambda>t. now - 3600 < t) old;
        minuteCount = int (length (filter (\<lambda>t. now - 60 < t) kept));
        hourCount = int (length kept);
        quota = [(''X-RateLimit-Limit-Minute'', str_int (requests_per_minute self)),
                 (''X-RateLimit-Remaining-Minute'',
                    str_int (max 0 (requests_per_minute self - minuteCount))),
                 (''X-RateLimit-Limit-Hour'', str_int (requests_per_hour self)),
                 (''X-RateLimit-Remaining-Hour'',
                    str_int (max 0 (requests_per_hour self - hourCount)))]
    in (\<forall>t \<in> set old. t < now - 3600 \<longrightarrow> t \<notin> set kept)
       \<and> self' = self\<lparr>buckets := (buckets self)(client_ip \<mapsto> \<lparr>requests = kept\<rparr>)\<rparr>
       \<and> (requests_per_minute self \<le> minuteCount \<longrightarrow>
            is_limited \<and> hdrs = quota @ [(''Retry-After'', ''60'')])
       \<and> (minuteCount < requests_per_minute self \<and> requests_per_hour self \<le> hourCount \<longrightarrow>
            is_limited \<and> hdrs = quota @ [(''Retry-After'', ''3600'')])
       \<and> (minuteCount < requests_per_minute self \<and> hourCount < requests_per_hour self \<longrightarrow>
            \<not> is_limited \<and> hdrs = quota))"
  unfolding is_rate_limited_def buckets_getitem_def bucket_requests_def Let_def
  by (auto simp: prune_filter_eq count_ones bucket_update_eq split: option.splits if_splits prod.splits)

theorem is_rate_limited_algorithm_witness:
  "fst (fst (is_rate_limited
       \<lparr>requests_per_minute = 3, requests_per_hour = 1000, enabled = True,
        buckets = [''10.0.0.1'' \<mapsto> \<lparr>requests = [100, 101, 102]\<rparr>]\<rparr> 103 ''10.0.0.1''))
   \<and> dict_get (snd (fst (is_rate_limited
       \<lparr>requests_per_minute = 3, requests_per_hour = 1000, enabled = True,
        buckets = [''10.0.0.1'' \<mapsto> \<lparr>requests = [100, 101, 102]\<rparr>]\<rparr> 103 ''10.0.0.1'')))
        ''Retry-After'' = Some ''60''"
proof -
  obtain l h s where e: "is_rate_limited
       \<lparr>requests_per_minute = 3, requests_per_hour = 1000, enabled = True,
        buckets = [''10.0.0.1'' \<mapsto> \<lparr>requests = [100, 101, 102]\<rparr>]\<rparr> 103 ''10.0.0.1'' = ((l, h), s)"
    by (metis prod.exhaust)
  from is_rate_limited_algorithm [OF e]
  have "l \<and> dict_get h ''Retry-After'' = Some ''60''"
    by (simp add: Let_def bucket_requests_def dict_get_def)
  then show ?thesis by (simp add: e)
qed

text \<open>
  C4. A request that the middleware bypasses (limiter disabled, or the path
  \<open>/health\<close>) leaves the middleware unchanged. For any other request, when the
  decision is deny the bucket of the client holds the pruned timestamps and nothing
  else, and the response has status 429; when the decision is allow the bucket holds
  the pruned timestamps followed by exactly one new timestamp. The buckets of other
  clients do not change.
\<close>

theorem dispatch_records_only_allowed:
  "dispatch self records now now' call_next request = (response, self', records') \<Longrightarrow>
   is_rate_limited self now (get_client_ip request) = ((is_limited, hdrs), self1) \<Longrightarrow>
   (let client_ip = get_client_ip request;
        pruned = filter (\<lambda>t. now - t < 3600) (bucket_requests self client_ip)
    in (\<not> enabled self \<or> path request = ''/health'' \<longrightarrow> self' = self)
       \<and> (enabled self \<and> path request \<noteq> ''/health'' \<longrightarrow>
            (is_limited \<longrightarrow> bucket_requests self' client_ip = pruned
                              \<and> status_code response = 429)
          \<and> (\<not> is_limited \<longrightarrow> bucket_requests self' client_ip = pruned @ [now'])
          \<and> (\<forall>other. other \<noteq> client_ip \<longrightarrow> buckets self' other = buckets self other)))"
  unfolding dispatch_def is_rate_limited_def buckets_getitem_def bucket_requests_def Let_def
  by (auto simp: bucket_update_eq split: option.splits if_splits prod.splits)

subsection \<open>TTL cache\<close>

lemma dict_get_dict_set_same: "dict_get (dict_set es k e) k = Some e"
  by (induction es) (auto simp: dict_get_def)

lemma dict_set_absent: "dict_get es k = None \<Longrightarrow> dict_set es k e = es @ [(k, e)]"
  by (induction es) (auto simp: dict_get_def split: if_splits)

lemma length_dict_set_present: "dict_get es k \<noteq> None \<Longrightarrow> length (dict_set es k e) = length es"
  by (induction es) (auto simp: dict_get_def)

lemma dict_get_tl_absent: "dict_get es k = None \<Longrightarrow> dict_get (tl es) k = None"
  by (cases es) (auto simp: dict_get_def split: if_splits)

lemma ttl_get_after_set:
  "fst (ttl_get (ttl_set c k v t0) k t1) = (if t1 < t0 + real_of_int (ttl c) then Some v else None)"
  by (simp add: ttl_get_def ttl_set_def Let_def dict_get_dict_set_same expired_def)

lemma ttl_get_live:
  "fst (ttl_get c k now) = Some d \<Longrightarrow>
     \<exists>e. dict_get (entries c) k = Some e \<and> val e = d \<and> now < expiresAt e"
  by (auto simp: ttl_get_def expired_def split: option.splits if_splits)

text \<open>
  C2. After \<open>set_post_cached\<close> at time \<open>t0\<close>, \<open>get_post_cached\<close> for the same slug
  at a time \<open>t1\<close> before \<open>t0 + ttl\<close> returns the value; once the ttl has elapsed
  (\<open>t0 + ttl \<le> t1\<close>) it returns nothing. Whenever a read returns a value, the
  cache holds an entry for the slug with that value whose expiry time is later than
  the time of the read.
\<close>

theorem post_cache_ttl:
  "(t1 < t0 + real_of_int (ttl (post_cache cs)) \<longrightarrow>
      fst (get_post_cached (set_post_cached cs t0 k v) t1 k) = Some v)
   \<and> (t0 + real_of_int (ttl (post_cache cs)) \<le> t1 \<longrightarrow>
      fst (get_post_cached (set_post_cached cs t0 k v) t1 k) = None)
   \<and> (fst (get_post_cached cs' now k') = Some d \<longrightarrow>
      (\<exists>e. dict_get (entries (post_cache cs')) k' = Some e \<and> val e = d \<and> now < expiresAt e))"
proof -
  have a: "fst (get_post_cached (set_post_cached cs t0 k v) t1 k)
             = (if t1 < t0 + real_of_int (ttl (post_cache cs)) then Some v else None)"
    using ttl_get_after_set [of "post_cache cs" k v t0 t1]
    by (simp add: get_post_cached_def set_post_cached_def case_prod_beta)
  have b: "fst (get_post_cached cs' now k') = fst (ttl_get (post_cache cs') k' now)"
    by (simp add: get_post_cached_def case_prod_beta)
  show ?thesis using a ttl_get_live [of "post_cache cs'" k' now d] by (auto simp: b)
qed

lemma ttl_set_maxsize: "maxsize (ttl_set c k v now) = maxsize c"
  by (simp add: ttl_set_def Let_def)

lemma ttl_set_size:
  assumes "ttl_size c \<le> maxsize c" "0 < maxsize c"
  shows "ttl_size (ttl_set c k v now) \<le> maxsize c"
proof (cases "dict_get (entries c) k = None")
  case True
  show ?thesis
  proof (cases "maxsize c \<le> length (entries c)")
    case full: True
    have "dict_get (tl (entries c)) k = None" using True by (rule dict_get_tl_absent)
    then show ?thesis using assms True full
      by (simp add: ttl_set_def ttl_size_def Let_def dict_set_absent)
  next
    case False
    then show ?thesis using True by (simp add: ttl_set_def ttl_size_def Let_def dict_set_absent)
  qed
next
  case False
  then obtain e where e: "dict_get (entries c) k = Some e" by auto
  have "length (dict_set (entries c) k \<lparr>val = v, expiresAt = now + real_of_int (ttl c)\<rparr>)
          = length (entries c)"
    using False by (rule length_dict_set_present)
  then show ?thesis using assms e
    by (simp add: ttl_set_def ttl_size_def Let_def)
qed

lemma ttl_set_evicts:
  assumes "dict_get (entries c) k = None" "ttl_size c = maxsize c"
  shows "entries (ttl_set c k v now)
           = tl (entries c) @ [(k, \<lparr>val = v, expiresAt = now + real_of_int (ttl c)\<rparr>)]"
  using assms dict_get_tl_absent [OF assms(1)]
  by (simp add: ttl_set_def ttl_size_def Let_def dict_set_absent)

lemma caches_ok_new: "caches_ok (new_caches settings)"
  by (simp add: caches_ok_def new_caches_def ttl_size_def)

lemma caches_ok_write: "caches_ok cs \<Longrightarrow> caches_ok (apply_write cs w)"
proof (cases w)
  case (SetPostsList now v)
  assume "caches_ok cs"
  then show ?thesis using SetPostsList ttl_set_size [of "posts_list_cache cs" "''posts_list''" v now]
    by (simp add: caches_ok_def set_posts_list_cached_def ttl_set_maxsize POSTS_LIST_CACHE_SIZE_def)
next
  case (SetPost now sl v)
  assume "caches_ok cs"
  then show ?thesis using SetPost ttl_set_size [of "post_cache cs" sl v now]
    by (simp add: caches_ok_def set_post_cached_def ttl_set_maxsize MAX_INDIVIDUAL_POST_CACHE_def)
next
  case (SetSlugMap now v)
  assume "caches_ok cs"
  then show ?thesis using SetSlugMap ttl_set_size [of "slug_map_cache cs" "''slug_map''" v now]
    by (simp add: caches_ok_def set_slug_map_cached_def ttl_set_maxsize SLUG_MAP_CACHE_SIZE_def)
qed

lemma caches_ok_writes: "caches_ok cs \<Longrightarrow> caches_ok (apply_writes cs ws)"
  unfolding apply_writes_def
  by (induction ws arbitrary: cs) (simp_all add: caches_ok_write)

text \<open>
  C3. After any sequence of writes to the three caches, starting from the caches as
  created, the per-post cache holds at most 512 entries and the posts-list cache and
  the slug-map cache at most 1 each. Writing a new key to a cache that is at its
  (positive) capacity removes exactly one entry, the oldest, and then adds the new
  one, so the cache stays at capacity.
\<close>

theorem cache_capacity:
  "(let cs = apply_writes (new_caches settings) ws
    in ttl_size (post_cache cs) \<le> 512
       \<and> ttl_size (posts_list_cache cs) \<le> 1
       \<and> ttl_size (slug_map_cache cs) \<le> 1)
   \<and> (dict_get (entries c) k = None \<and> ttl_size c = maxsize c \<and> 0 < maxsize c \<longrightarrow>
          entries (ttl_set c k v now)
            = tl (entries c) @ [(k, \<lparr>val = v, expiresAt = now + real_of_int (ttl c)\<rparr>)]
          \<and> ttl_size (ttl_set c k v now) = maxsize c)"
proof -
  have ok: "caches_ok (apply_writes (new_caches settings) ws)"
    by (rule caches_ok_writes [OF caches_ok_new])
  have sizes: "(let cs = apply_writes (new_caches settings) ws
    in ttl_size (post_cache cs) \<le> 512
       \<and> ttl_size (posts_list_cache cs) \<le> 1
       \<and> ttl_size (slug_map_cache cs) \<le> 1)"
    using ok
    by (simp add: Let_def caches_ok_def MAX_INDIVIDUAL_POST_CACHE_def
          POSTS_LIST_CACHE_SIZE_def SLUG_MAP_CACHE_SIZE_def)
  have evict: "dict_get (entries c) k = None \<and> ttl_size c = maxsize c \<and> 0 < maxsize c \<longrightarrow>
          entries (ttl_set c k v now)
            = tl (entries c) @ [(k, \<lparr>val = v, expiresAt = now + real_of_int (ttl c)\<rparr>)]
          \<and> ttl_size (ttl_set c k v now) = maxsize c"
  proof (intro impI)
    assume a: "dict_get (entries c) k = None \<and> ttl_size c = maxsize c \<and> 0 < maxsize c"
    then have e: "entries (ttl_set c k v now)
            = tl (entries c) @ [(k, \<lparr>val = v, expiresAt = now + real_of_int (ttl c)\<rparr>)]"
      using ttl_set_evicts [of c k v now] by simp
    have "ttl_size (ttl_set c k v now) = maxsize c"
      using a by (simp add: ttl_size_def e)
    then show "entries (ttl_set c k v now)
            = tl (entries c) @ [(k, \<lparr>val = v, expiresAt = now + real_of_int (ttl c)\<rparr>)]
          \<and> ttl_size (ttl_set c k v now) = maxsize c"
      using e by simp
  qed
  show ?thesis using sizes evict by blast
qed

subsection \<open>Listing\<close>

lemma sort_reverse_sorted: "sorted_wrt (\<lambda>a b. f b \<le> f a) (sort_reverse f xs)"
proof -
  have "sorted (map f (sort_key f (rev xs)))" by (rule sorted_sort_key)
  then have "sorted_wrt (\<lambda>a b. f a \<le> f b) (sort_key f (rev xs))"
    by (simp add: sorted_map)
  then show ?thesis by (simp add: sort_reverse_def sorted_wrt_rev)
qed

lemma all_summaries_of_miss:
  assumes "fst (get_posts_list_cached (caches st) now) = None"
      and "all_summaries_of lib store st now now' = (Inr all_summaries, st')"
  shows "\<exists>xs. all_summaries = sort_reverse date xs"
  using assms unfolding all_summaries_of_def Let_def
  by (auto split: prod.splits option.splits sum.splits)

text \<open>
  C5. On a cache miss the full listing is in non-increasing order of the date
  strings, compared as plain strings: each summary's date is less than or equal to
  the date of the summary before it.
\<close>

theorem listing_sorted_descending:
  assumes "fst (get_posts_list_cached (caches st) now) = None"
      and "all_summaries_of lib store st now now' = (Inr all_summaries, st')"
  shows "\<forall>i. Suc i < length all_summaries \<longrightarrow>
            date (all_summaries ! Suc i) \<le> date (all_summaries ! i)"
proof -
  from all_summaries_of_miss [OF assms] obtain xs where "all_summaries = sort_reverse date xs" ..
  then have "sorted_wrt (\<lambda>a b. date b \<le> date a) all_summaries"
    by (simp add: sort_reverse_sorted)
  then show ?thesis by (simp add: sorted_wrt_iff_nth_less)
qed

lemma py_slice_page:
  assumes "0 \<le> i" "0 \<le> n"
  shows "py_slice xs i (i + n) = take (nat n) (drop (nat i) xs)"
proof (cases "i \<le> int (length xs)")
  case True
  show ?thesis
  proof (cases "i + n \<le> int (length xs)")
    case le: True
    have "nat (i + n) - nat i = nat n" using assms by simp
    then show ?thesis using assms True le
      by (simp add: py_slice_def slice_bound_def Let_def min_def)
  next
    case False
    then have "length xs - nat i \<le> nat n" using assms by linarith
    then show ?thesis using assms True False
      by (simp add: py_slice_def slice_bound_def Let_def min_def)
  qed
next
  case False
  then show ?thesis using assms
    by (simp add: py_slice_def slice_bound_def Let_def min_def)
qed

lemma list_posts_body:
  assumes "all_summaries_of lib store st now now' = (Inr all_summaries, st')"
  shows "\<exists>response. list_posts lib store settings st now now' limit' offset' = (Inr response, st')
           \<and> body response = \<lparr>posts = py_slice all_summaries offset' (offset' + limit'),
                               total = int (length all_summaries),
                               limit = limit', offset = offset'\<rparr>
           \<and> dict_get (headers response) ''ETag''
               = Some (''\"'' @ md5_hexdigest lib
                   (str_int (int (length all_summaries)) @ ''-'' @ str_int offset'
                      @ ''-'' @ str_int limit') @ ''\"'')"
  using assms
  by (simp add: list_posts_def Let_def add_cache_headers_def generate_etag_def dict_get_def)

text \<open>
  C6. For a limit between 1 and 100 and a non-negative offset, the page that
  \<open>list_posts\<close> returns is the full list with the first \<open>offset\<close> summaries dropped
  and then at most \<open>limit\<close> taken; so the page has at most \<open>limit\<close> summaries, the
  total is the length of the full list, and an offset at or beyond the total gives
  an empty page.
\<close>

theorem list_posts_pagination:
  assumes "1 \<le> limit'" "limit' \<le> 100" "0 \<le> offset'"
      and "all_summaries_of lib store st now now' = (Inr all_summaries, st')"
  shows "\<exists>response. list_posts lib store settings st now now' limit' offset' = (Inr response, st')
           \<and> posts (body response) = take (nat limit') (drop (nat offset') all_summaries)
           \<and> int (length (posts (body response))) \<le> limit'
           \<and> total (body response) = int (length all_summaries)
           \<and> (total (body response) \<le> offset' \<longrightarrow> posts (body response) = [])"
proof -
  from list_posts_body [OF assms(4), of settings limit' offset']
  obtain response where
    r: "list_posts lib store settings st now now' limit' offset' = (Inr response, st')" and
    b: "body response = \<lparr>posts = py_slice all_summaries offset' (offset' + limit'),
                          total = int (length all_summaries),
                          limit = limit', offset = offset'\<rparr>"
    by blast
  have p: "posts (body response) = take (nat limit') (drop (nat offset') all_summaries)"
    using b assms py_slice_page [of offset' limit' all_summaries] by simp
  have l: "int (length (posts (body response))) \<le> limit'" using p assms by simp
  have t: "total (body response) = int (length all_summaries)" using b by simp
  have e: "total (body response) \<le> offset' \<longrightarrow> posts (body response) = []"
    using p t assms by simp
  show ?thesis using r p l t e by blast
qed

lemma list_posts_etag:
  assumes "list_posts lib store settings st now now' limit' offset' = (Inr response, st')"
  shows "dict_get (headers response) ''ETag''
           = Some (''\"'' @ md5_hexdigest lib
               (str_int (total (body response)) @ ''-'' @ str_int offset'
                  @ ''-'' @ str_int limit') @ ''\"'')"
proof -
  obtain r s where a: "all_summaries_of lib store st now now' = (r, s)" by (cases "all_summaries_of lib store st now now'")
  show ?thesis
  proof (cases r)
    case (Inl e)
    then show ?thesis using assms a by (simp add: list_posts_def)
  next
    case (Inr xs)
    from list_posts_body [of lib store st now now' xs s settings limit' offset'] a Inr assms
    show ?thesis by auto
  qed
qed

text \<open>
  C10. The ETag of a listing response is the quoted MD5 hex digest of the string
  \<open>"{total}-{offset}-{limit}"\<close>: two listing responses with the same total, offset
  and limit carry the same ETag, whatever the storage, the settings, the state and
  the clock of the two requests.
\<close>

theorem listing_etag_depends_on_total_offset_limit:
  assumes "list_posts lib store1 settings1 st1 now1 now1' limit' offset' = (Inr response1, st1')"
      and "list_posts lib store2 settings2 st2 now2 now2' limit' offset' = (Inr response2, st2')"
      and "total (body response1) = total (body response2)"
  shows "dict_get (headers response1) ''ETag'' = dict_get (headers response2) ''ETag''
         \<and> dict_get (headers response1) ''ETag''
             = Some (''\"'' @ md5_hexdigest lib
                 (str_int (total (body response1)) @ ''-'' @ str_int offset'
                    @ ''-'' @ str_int limit') @ ''\"'')"
  using list_posts_etag [OF assms(1)] list_posts_etag [OF assms(2)] assms(3) by simp

lemma load_summary_result_indep:
  "fst (load_summary lib store st sl) = fst (load_summary lib store st0 sl)"
  by (simp add: load_summary_def load_post_by_slug_def parse_frontmatter_def
           split: sum.splits option.splits prod.splits)

lemma load_summary_logs:
  "load_summary lib store st sl = (r, st') \<Longrightarrow> set (logs st) \<subseteq> set (logs st')"
  by (auto simp: load_summary_def load_post_by_slug_def parse_frontmatter_def
           split: sum.splits option.splits prod.splits)

lemma summary_of_indep: "summary_of lib store st sl = summary_of lib store st0 sl"
  using load_summary_result_indep [of lib store st sl st0] by (simp add: summary_of_def)

lemma load_summaries_skips:
  assumes "\<forall>sl \<in> set slugs. \<forall>e. fst (load_summary lib store st0 sl) = Inl e \<longrightarrow> skipped e"
  shows "\<exists>st'. load_summaries lib store st slugs acc
                 = (Inr (acc @ List.map_filter (summary_of lib store st0) slugs), st')
           \<and> set (logs st) \<subseteq> set (logs st')
           \<and> (\<forall>sl \<in> set slugs. \<forall>e. fst (load_summary lib store st0 sl) = Inl e \<longrightarrow>
                  skip_record sl e \<in> set (logs st'))"
  using assms
proof (induction slugs arbitrary: st acc)
  case Nil
  then show ?case by simp
next
  case (Cons sl slugs)
  obtain r st1 where ls: "load_summary lib store st sl = (r, st1)"
    by (cases "load_summary lib store st sl")
  have r0: "fst (load_summary lib store st0 sl) = r"
    using load_summary_result_indep [of lib store st0 sl st] ls by simp
  have mono1: "set (logs st) \<subseteq> set (logs st1)" using ls by (rule load_summary_logs)
  have rest: "\<forall>sl \<in> set slugs. \<forall>e. fst (load_summary lib store st0 sl) = Inl e \<longrightarrow> skipped e"
    using Cons.prems by simp
  show ?case
  proof (cases r)
    case (Inr s)
    from Cons.IH [OF rest, of st1 "acc @ [s]"] obtain st' where
      a: "load_summaries lib store st1 slugs (acc @ [s])
            = (Inr ((acc @ [s]) @ List.map_filter (summary_of lib store st0) slugs), st')" and
      b: "set (logs st1) \<subseteq> set (logs st')" and
      c: "\<forall>sl \<in> set slugs. \<forall>e. fst (load_summary lib store st0 sl) = Inl e \<longrightarrow>
                  skip_record sl e \<in> set (logs st')"
      by blast
    have so: "summary_of lib store st0 sl = Some s" using r0 Inr by (simp add: summary_of_def)
    have "load_summaries lib store st (sl # slugs) acc
            = (Inr (acc @ List.map_filter (summary_of lib store st0) (sl # slugs)), st')"
      using ls Inr a so by simp
    moreover have "set (logs st) \<subseteq> set (logs st')" using mono1 b by blast
    moreover have "\<forall>x \<in> set (sl # slugs). \<forall>e. fst (load_summary lib store st0 x) = Inl e \<longrightarrow>
                  skip_record x e \<in> set (logs st')"
      using c r0 Inr by simp
    ultimately show ?thesis by blast
  next
    case (Inl e)
    have sk: "skipped e" using Cons.prems r0 Inl by simp
    let ?st2 = "st1\<lparr>logs := logs st1 @ [skip_record sl e]\<rparr>"
    from Cons.IH [OF rest, of ?st2 acc] obtain st' where
      a: "load_summaries lib store ?st2 slugs acc
            = (Inr (acc @ List.map_filter (summary_of lib store st0) slugs), st')" and
      b: "set (logs ?st2) \<subseteq> set (logs st')" and
      c: "\<forall>sl \<in> set slugs. \<forall>e. fst (load_summary lib store st0 sl) = Inl e \<longrightarrow>
                  skip_record sl e \<in> set (logs st')"
      by blast
    have so: "summary_of lib store st0 sl = None" using r0 Inl by (simp add: summary_of_def)
    have "load_summaries lib store st (sl # slugs) acc
            = (Inr (acc @ List.map_filter (summary_of lib store st0) (sl # slugs)), st')"
      using ls Inl a so sk by (simp add: skip_record_def)
    moreover have "set (logs st) \<subseteq> set (logs st')" using mono1 b by auto
    moreover have "skip_record sl e \<in> set (logs st')" using b by auto
    then have "\<forall>x \<in> set (sl # slugs). \<forall>e. fst (load_summary lib store st0 x) = Inl e \<longrightarrow>
                  skip_record x e \<in> set (logs st')"
      using c r0 Inl by auto
    ultimately show ?thesis by blast
  qed
qed

lemma all_summaries_of_skips:
  assumes "fst (get_posts_list_cached (caches st) now) = None"
      and "list_post_slugs store = Inr slugs"
      and "\<forall>sl \<in> set slugs. \<forall>e. fst (load_summary lib store st sl) = Inl e \<longrightarrow> skipped e"
  shows "\<exists>st'.
           all_summaries_of lib store st now now'
             = (Inr (sort_reverse date (List.map_filter (summary_of lib store st) slugs)), st')
           \<and> (\<forall>sl \<in> set slugs. \<forall>e. fst (load_summary lib store st sl) = Inl e \<longrightarrow>
                  skip_record sl e \<in> set (logs st'))"
proof -
  obtain cs where g: "get_posts_list_cached (caches st) now = (None, cs)"
    using assms(1) by (cases "get_posts_list_cached (caches st) now") simp
  let ?st1 = "st\<lparr>caches := cs\<rparr>"
  from load_summaries_skips [OF assms(3), of ?st1 "[]"] obtain st2 where
    a: "load_summaries lib store ?st1 slugs []
          = (Inr (List.map_filter (summary_of lib store st) slugs), st2)" and
    c: "\<forall>sl \<in> set slugs. \<forall>e. fst (load_summary lib store st sl) = Inl e \<longrightarrow>
                  skip_record sl e \<in> set (logs st2)"
    by auto
  let ?all = "sort_reverse date (List.map_filter (summary_of lib store st) slugs)"
  let ?st' = "st2\<lparr>caches := set_posts_list_cached (caches st2) now' ?all\<rparr>"
  have all: "all_summaries_of lib store st now now' = (Inr ?all, ?st')"
    using g assms(2) a by (simp add: all_summaries_of_def Let_def)
  have l: "\<forall>sl \<in> set slugs. \<forall>e. fst (load_summary lib store st sl) = Inl e \<longrightarrow>
                  skip_record sl e \<in> set (logs ?st')"
    using c by simp
  show ?thesis using all l by blast
qed

text \<open>
  What the loop does guarantee. On a cache miss, when every slug that fails to load,
  parse or validate fails with an error that the loop catches (a \<open>ValueError\<close>,
  which includes pydantic's \<open>ValidationError\<close>, or a \<open>FileNotFoundError\<close>),
  \<open>list_posts\<close> succeeds: the full listing is the sorted list of the summaries of
  the slugs that did load, the total is their number, and a warning is logged for
  every skipped slug.
\<close>

theorem listing_skips_bad_posts:
  assumes "fst (get_posts_list_cached (caches st) now) = None"
      and "list_post_slugs store = Inr slugs"
      and "\<forall>sl \<in> set slugs. \<forall>e. fst (load_summary lib store st sl) = Inl e \<longrightarrow> skipped e"
  shows "\<exists>st' response.
           all_summaries_of lib store st now now'
             = (Inr (sort_reverse date (List.map_filter (summary_of lib store st) slugs)), st')
           \<and> list_posts lib store settings st now now' limit' offset' = (Inr response, st')
           \<and> total (body response)
               = int (length (List.map_filter (summary_of lib store st) slugs))
           \<and> (\<forall>sl \<in> set slugs. \<forall>e. fst (load_summary lib store st sl) = Inl e \<longrightarrow>
                  skip_record sl e \<in> set (logs st'))"
proof -
  let ?all = "sort_reverse date (List.map_filter (summary_of lib store st) slugs)"
  from all_summaries_of_skips [OF assms, of now'] obtain st' where
    all: "all_summaries_of lib store st now now' = (Inr ?all, st')" and
    l: "\<forall>sl \<in> set slugs. \<forall>e. fst (load_summary lib store st sl) = Inl e \<longrightarrow>
                  skip_record sl e \<in> set (logs st')"
    by blast
  from list_posts_body [OF all, of settings limit' offset'] obtain response where
    r: "list_posts lib store settings st now now' limit' offset' = (Inr response, st')" and
    b: "body response = \<lparr>posts = py_slice ?all offset' (offset' + limit'),
                          total = int (length ?all), limit = limit', offset = offset'\<rparr>"
    by blast
  have len: "length ?all = length (List.map_filter (summary_of lib store st) slugs)"
    by (simp add: sort_reverse_def)
  have t: "total (body response) = int (length (List.map_filter (summary_of lib store st) slugs))"
    using b len by simp
  show ?thesis using all r t l by blast
qed

lemma post_meta_of_defaults:
  assumes "post_meta_of lib sl meta_dict = Inr m"
  shows "slug m = sl
         \<and> (meta_dict ''title'' = None \<longrightarrow> title m = sl)
         \<and> (meta_dict ''date'' = None \<longrightarrow> date m = [])"
  using assms
  by (auto simp: post_meta_of_def PostMeta_init_def py_str_def Let_def
           split: sum.splits if_splits)

lemma load_summary_meta:
  assumes "load_summary lib store st sl = (Inr s, st1)"
      and "load_backend store sl = Inr raw"
      and "frontmatter_loads lib raw = Some (meta_dict, cont)"
  shows "post_meta_of lib sl meta_dict = Inr s"
  using assms
  by (auto simp: load_summary_def load_post_by_slug_def parse_frontmatter_def
           split: sum.splits prod.splits)

lemma get_post_miss_meta:
  assumes "get_post lib store settings st now now' sl = (Inr response, st')"
      and "fst (get_post_cached (caches st) now sl) = None"
      and "load_backend store sl = Inr raw"
      and "frontmatter_loads lib raw = Some (meta_dict, cont)"
  shows "post_meta_of lib sl meta_dict = Inr (meta (body response))
         \<and> content (body response) = cont"
proof -
  obtain cs where g: "get_post_cached (caches st) now sl = (None, cs)"
    using assms(2) by (cases "get_post_cached (caches st) now sl") simp
  show ?thesis
    using assms(1,3,4) g
    by (auto simp: get_post_def Let_def load_post_by_slug_def parse_frontmatter_def
                   add_cache_headers_def generate_etag_def
             split: if_splits sum.splits error.splits)
qed

lemma empty_dates_last:
  assumes "sorted_wrt (\<lambda>a b. date b \<le> date a) (xs :: PostSummary list)"
      and "i < j" "j < length xs" "date (xs ! i) = []"
  shows "date (xs ! j) = []"
proof -
  have "date (xs ! j) \<le> date (xs ! i)"
    using assms(1-3) by (simp add: sorted_wrt_iff_nth_less)
  then show ?thesis using assms(4) by simp
qed

text \<open>
  C9. A summary built by \<open>list_posts\<close> and the detail built by \<open>get_post\<close> on a
  cache miss have the slug as title when the front matter has no \<open>title\<close>, and the
  empty string as date when it has no \<open>date\<close>. In the full listing built on a cache
  miss, every summary that comes after one with an empty date has an empty date too:
  the posts without a date come after all posts with a non-empty date.
\<close>

theorem missing_title_and_date_defaults:
  "(load_summary lib store st sl = (Inr s, st1) \<and> load_backend store sl = Inr raw
      \<and> frontmatter_loads lib raw = Some (meta_dict, cont) \<longrightarrow>
        (meta_dict ''title'' = None \<longrightarrow> title s = sl)
      \<and> (meta_dict ''date'' = None \<longrightarrow> date s = []))
   \<and> (get_post lib store settings st now now' sl = (Inr response, st2)
      \<and> fst (get_post_cached (caches st) now sl) = None \<and> load_backend store sl = Inr raw
      \<and> frontmatter_loads lib raw = Some (meta_dict, cont) \<longrightarrow>
        (meta_dict ''title'' = None \<longrightarrow> title (meta (body response)) = sl)
      \<and> (meta_dict ''date'' = None \<longrightarrow> date (meta (body response)) = []))
   \<and> (fst (get_posts_list_cached (caches st) now) = None
      \<and> all_summaries_of lib store st now now' = (Inr all_summaries, st3) \<longrightarrow>
        (\<forall>i j. i < j \<and> j < length all_summaries \<and> date (all_summaries ! i) = [] \<longrightarrow>
               date (all_summaries ! j) = []))"
proof (intro conjI impI allI)
  assume a: "load_summary lib store st sl = (Inr s, st1) \<and> load_backend store sl = Inr raw
      \<and> frontmatter_loads lib raw = Some (meta_dict, cont)"
  then have m: "post_meta_of lib sl meta_dict = Inr s" using load_summary_meta by blast
  { assume "meta_dict ''title'' = None"
    then show "title s = sl" using post_meta_of_defaults [OF m] by simp }
  { assume "meta_dict ''date'' = None"
    then show "date s = []" using post_meta_of_defaults [OF m] by simp }
next
  assume a: "get_post lib store settings st now now' sl = (Inr response, st2)
      \<and> fst (get_post_cached (caches st) now sl) = None \<and> load_backend store sl = Inr raw
      \<and> frontmatter_loads lib raw = Some (meta_dict, cont)"
  then have m: "post_meta_of lib sl meta_dict = Inr (meta (body response))"
    using get_post_miss_meta by blast
  { assume "meta_dict ''title'' = None"
    then show "title (meta (body response)) = sl" using post_meta_of_defaults [OF m] by simp }
  { assume "meta_dict ''date'' = None"
    then show "date (meta (body response)) = []" using post_meta_of_defaults [OF m] by simp }
next
  fix i j
  assume a: "fst (get_posts_list_cached (caches st) now) = None
      \<and> all_summaries_of lib store st now now' = (Inr all_summaries, st3)"
    and b: "i < j \<and> j < length all_summaries \<and> date (all_summaries ! i) = []"
  from a all_summaries_of_miss obtain xs where "all_summaries = sort_reverse date xs" by blast
  then have "sorted_wrt (\<lambda>a b. date b \<le> date a) all_summaries"
    by (simp add: sort_reverse_sorted)
  then show "date (all_summaries ! j) = []" using b empty_dates_last by blast
qed

subsection \<open>Slug validation\<close>

text \<open>
  C7. \<open>validate_slug\<close> accepts the slug \<open>abc\<close> followed by a newline and returns it
  unchanged, although the newline is not a letter, a digit, an underscore or a
  hyphen: \<open>$\<close> in \<open>SLUG_PATTERN\<close> also matches before a final newline.
\<close>

theorem validate_slug_accepts_trailing_newline:
  "validate_slug (''abc'' @ [CHR 0x0A]) = Inr (''abc'' @ [CHR 0x0A])"
  by (simp add: validate_slug_def SLUG_PATTERN_match_def slug_char_def MAX_SLUG_LENGTH_def Let_def)

text \<open>A slug that \<open>validate_slug\<close> rejects never reaches the storage backend.\<close>

lemma validate_slug_failfast:
  "validate_slug sl = Inl e \<Longrightarrow> load_post_by_slug store st sl = (Inl e, st)"
  by (simp add: load_post_by_slug_def)

subsection \<open>Concrete runs\<close>

lemma validate_examples:
  "validate_slug ''old-post'' = Inr ''old-post''"
  "validate_slug ''new-post'' = Inr ''new-post''"
  "validate_slug ''plain'' = Inr ''plain''"
  "validate_slug ''notes'' = Inr ''notes''"
  "validate_slug ''gone'' = Inr ''gone''"
  "validate_slug ''bad-yaml'' = Inr ''bad-yaml''"
  by (simp_all add: validate_slug_def SLUG_PATTERN_match_def slug_char_def MAX_SLUG_LENGTH_def Let_def)

lemma example_load_summary:
  "fst (load_summary example_lib example_store st ''old-post'')
     = Inr \<lparr>slug = ''old-post'', title = ''old-post'', date = ''2024-01-10'', description = None, tags = []\<rparr>"
  "fst (load_summary example_lib example_store st ''new-post'')
     = Inr \<lparr>slug = ''new-post'', title = ''New'', date = ''2024-01-15'', description = None, tags = []\<rparr>"
  "fst (load_summary example_lib example_store st ''plain'')
     = Inr \<lparr>slug = ''plain'', title = ''plain'', date = [], description = None, tags = []\<rparr>"
  "fst (load_summary example_lib example_store st ''notes'')
     = Inr \<lparr>slug = ''notes'', title = ''notes'', date = [], description = None, tags = []\<rparr>"
  "fst (load_summary example_lib example_store st ''gone'') = Inl (FileNotFoundError ''gone'')"
  "fst (load_summary example_lib example_store st ''bad-yaml'')
     = Inl (ValueError ''Invalid frontmatter format in post: bad-yaml'')"
  by (simp_all add: load_summary_def load_post_by_slug_def validate_examples example_store_def
        example_lib_def parse_frontmatter_def post_meta_of_def py_str_def truthy_def py_list_def
        PostMeta_init_def is_PStr_def str_of_def)

lemma example_miss: "fst (get_posts_list_cached (caches example_state) 0) = None"
  by (simp add: example_state_def new_caches_def get_posts_list_cached_def ttl_get_def dict_get_def)

lemma example_slugs:
  "list_post_slugs example_store
     = Inr [''old-post'', ''gone'', ''plain'', ''new-post'', ''bad-yaml'', ''notes'']"
  by (simp add: example_store_def)

lemma example_only_skipped:
  "\<forall>sl \<in> set [''old-post'', ''gone'', ''plain'', ''new-post'', ''bad-yaml'', ''notes''].
     \<forall>e. fst (load_summary example_lib example_store example_state sl) = Inl e \<longrightarrow> skipped e"
  by (auto simp: example_load_summary skipped_def)

lemma example_summaries:
  "sort_reverse date (List.map_filter (summary_of example_lib example_store example_state)
       [''old-post'', ''gone'', ''plain'', ''new-post'', ''bad-yaml'', ''notes''])
     = example_listing"
  by (simp add: summary_of_def example_load_summary sort_reverse_def example_listing_def)

lemma example_all:
  "\<exists>st'. all_summaries_of example_lib example_store example_state 0 0 = (Inr example_listing, st')"
proof -
  from all_summaries_of_skips [OF example_miss example_slugs example_only_skipped, of 0]
  obtain st' where "all_summaries_of example_lib example_store example_state 0 0
      = (Inr (sort_reverse date (List.map_filter
           (summary_of example_lib example_store example_state)
           [''old-post'', ''gone'', ''plain'', ''new-post'', ''bad-yaml'', ''notes''])), st')"
    by blast
  then show ?thesis unfolding example_summaries by blast
qed

theorem listing_sorted_descending_witness:
  "fst (get_posts_list_cached (caches example_state) 0) = None
   \<and> fst (all_summaries_of example_lib example_store example_state 0 0) = Inr example_listing
   \<and> date (example_listing ! Suc 0) \<le> date (example_listing ! 0)
   \<and> date (example_listing ! Suc 1) \<le> date (example_listing ! 1)
   \<and> date (example_listing ! Suc 2) \<le> date (example_listing ! 2)"
proof -
  from example_all obtain st' where
    a: "all_summaries_of example_lib example_store example_state 0 0 = (Inr example_listing, st')" ..
  have len: "length example_listing = 4" by (simp add: example_listing_def)
  from listing_sorted_descending [OF example_miss a]
  have s: "\<forall>i. Suc i < length example_listing \<longrightarrow>
             date (example_listing ! Suc i) \<le> date (example_listing ! i)" .
  have "date (example_listing ! Suc 0) \<le> date (example_listing ! 0)"
       "date (example_listing ! Suc 1) \<le> date (example_listing ! 1)"
       "date (example_listing ! Suc 2) \<le> date (example_listing ! 2)"
    using s [rule_format, of 0] s [rule_format, of 1] s [rule_format, of 2] len by simp_all
  then show ?thesis using example_miss a by simp
qed

theorem list_posts_pagination_witness:
  "\<exists>response st'.
     list_posts example_lib example_store example_settings example_state 0 0 2 1 = (Inr response, st')
     \<and> map slug (posts (body response)) = [''old-post'', ''plain'']
     \<and> total (body response) = 4"
proof -
  from example_all obtain st' where
    a: "all_summaries_of example_lib example_store example_state 0 0 = (Inr example_listing, st')" ..
  have h: "(1::int) \<le> 2" "(2::int) \<le> 100" "(0::int) \<le> 1" by simp_all
  from list_posts_pagination [OF h a, of example_settings] obtain response where
    r: "list_posts example_lib example_store example_settings example_state 0 0 2 1 = (Inr response, st')" and
    p: "posts (body response) = take (nat 2) (drop (nat 1) example_listing)" and
    t: "total (body response) = int (length example_listing)"
    by blast
  have "map slug (posts (body response)) = [''old-post'', ''plain'']"
    using p by (simp add: example_listing_def)
  moreover have "total (body response) = 4" using t by (simp add: example_listing_def)
  ultimately show ?thesis using r by (intro exI [of _ response] exI [of _ st']) simp
qed

theorem listing_skips_bad_posts_witness:
  "\<exists>st' response.
     list_posts example_lib example_store example_settings example_state 0 0 20 0 = (Inr response, st')
     \<and> total (body response) = 4
     \<and> skip_record ''gone'' (FileNotFoundError ''gone'') \<in> set (logs st')
     \<and> skip_record ''bad-yaml'' (ValueError ''Invalid frontmatter format in post: bad-yaml'')
         \<in> set (logs st')"
proof -
  from listing_skips_bad_posts [OF example_miss example_slugs example_only_skipped,
         of 0 example_settings 20 0]
  obtain st' response where
    r: "list_posts example_lib example_store example_settings example_state 0 0 20 0 = (Inr response, st')" and
    t: "total (body response) = int (length (List.map_filter
          (summary_of example_lib example_store example_state)
          [''old-post'', ''gone'', ''plain'', ''new-post'', ''bad-yaml'', ''notes'']))" and
    l: "\<forall>sl \<in> set [''old-post'', ''gone'', ''plain'', ''new-post'', ''bad-yaml'', ''notes''].
          \<forall>e. fst (load_summary example_lib example_store example_state sl) = Inl e \<longrightarrow>
              skip_record sl e \<in> set (logs st')"
    by blast
  have "total (body response) = 4" using t by (simp add: summary_of_def example_load_summary)
  moreover have "skip_record ''gone'' (FileNotFoundError ''gone'') \<in> set (logs st')"
    using l example_load_summary(5) [of example_state] by simp
  moreover have "skip_record ''bad-yaml'' (ValueError ''Invalid frontmatter format in post: bad-yaml'')
         \<in> set (logs st')"
    using l example_load_summary(6) [of example_state] by simp
  ultimately show ?thesis using r by (intro exI [of _ st'] exI [of _ response]) simp
qed

theorem post_cache_ttl_witness:
  "fst (get_post_cached (set_post_cached (new_caches example_settings) 10 ''hello'' example_detail)
          309 ''hello'') = Some example_detail
   \<and> fst (get_post_cached (set_post_cached (new_caches example_settings) 10 ''hello'' example_detail)
          310 ''hello'') = None"
proof -
  have t: "ttl (post_cache (new_caches example_settings)) = 300"
    by (simp add: new_caches_def example_settings_def)
  have "fst (get_post_cached (set_post_cached (new_caches example_settings) 10 ''hello'' example_detail)
          309 ''hello'') = Some example_detail"
    using post_cache_ttl [of 309 10 "new_caches example_settings" "''hello''" example_detail]
    by (simp add: t)
  moreover have "fst (get_post_cached (set_post_cached (new_caches example_settings) 10 ''hello'' example_detail)
          310 ''hello'') = None"
    using post_cache_ttl [of 310 10 "new_caches example_settings" "''hello''" example_detail]
    by (simp add: t)
  ultimately show ?thesis by simp
qed

theorem cache_capacity_witness:
  "ttl_size (post_cache (apply_writes (new_caches example_settings)
       [SetPost 1 ''a'' example_detail, SetPost 2 ''b'' example_detail, SetPostsList 3 []])) \<le> 512
   \<and> ttl_size (posts_list_cache (apply_writes (new_caches example_settings)
       [SetPost 1 ''a'' example_detail, SetPost 2 ''b'' example_detail, SetPostsList 3 []])) \<le> 1
   \<and> entries (ttl_set \<lparr>maxsize = 2, ttl = 300,
                         entries = [(''a'', \<lparr>val = (1::nat), expiresAt = 301\<rparr>),
                                    (''b'', \<lparr>val = 2, expiresAt = 302\<rparr>)]\<rparr> ''c'' 3 5)
       = [(''b'', \<lparr>val = 2, expiresAt = 302\<rparr>), (''c'', \<lparr>val = 3, expiresAt = 305\<rparr>)]"
proof -
  let ?c = "\<lparr>maxsize = 2, ttl = 300,
             entries = [(''a'', \<lparr>val = (1::nat), expiresAt = 301\<rparr>),
                        (''b'', \<lparr>val = 2, expiresAt = 302\<rparr>)]\<rparr>"
  have h: "dict_get (entries ?c) ''c'' = None \<and> ttl_size ?c = maxsize ?c \<and> 0 < maxsize ?c"
    by (simp add: dict_get_def ttl_size_def)
  from cache_capacity [of example_settings
         "[SetPost 1 ''a'' example_detail, SetPost 2 ''b'' example_detail, SetPostsList 3 []]"
         ?c "''c''" 3 5] h
  show ?thesis by (simp add: Let_def)
qed

theorem dispatch_records_only_allowed_witness:
  "bucket_requests (fst (snd (dispatch
       \<lparr>requests_per_minute = 3, requests_per_hour = 1000, enabled = True,
        buckets = [''10.0.0.1'' \<mapsto> \<lparr>requests = [100, 101, 102]\<rparr>]\<rparr>
       [] 103 104 (\<lambda>r. \<lparr>status_code = 200, body = ''ok'', media_type = ''text/plain'', headers = []\<rparr>)
       \<lparr>path = ''/posts'', header = Map.empty, client = Some ''10.0.0.1''\<rparr>))) ''10.0.0.1''
     = [100, 101, 102]
   \<and> bucket_requests (fst (snd (dispatch
       \<lparr>requests_per_minute = 3, requests_per_hour = 1000, enabled = True,
        buckets = [''10.0.0.1'' \<mapsto> \<lparr>requests = [100, 101]\<rparr>]\<rparr>
       [] 103 104 (\<lambda>r. \<lparr>status_code = 200, body = ''ok'', media_type = ''text/plain'', headers = []\<rparr>)
       \<lparr>path = ''/posts'', header = Map.empty, client = Some ''10.0.0.1''\<rparr>))) ''10.0.0.1''
     = [100, 101, 104]"
proof -
  let ?next = "\<lambda>r::Request. \<lparr>status_code = 200, body = ''ok'', media_type = ''text/plain'',
                               headers = []\<rparr>"
  let ?req = "\<lparr>path = ''/posts'', header = Map.empty, client = Some ''10.0.0.1''\<rparr>"
  let ?full = "\<lparr>requests_per_minute = 3, requests_per_hour = 1000, enabled = True,
        buckets = [''10.0.0.1'' \<mapsto> \<lparr>requests = [100, 101, 102]\<rparr>]\<rparr>"
  let ?free = "\<lparr>requests_per_minute = 3, requests_per_hour = 1000, enabled = True,
        buckets = [''10.0.0.1'' \<mapsto> \<lparr>requests = [100, 101]\<rparr>]\<rparr>"
  have ip: "get_client_ip ?req = ''10.0.0.1''" by (simp add: get_client_ip_def)
  obtain r1 s1 l1 where d1: "dispatch ?full [] 103 104 ?next ?req = (r1, s1, l1)"
    by (metis prod.exhaust)
  obtain lim1 h1 m1 where e1: "is_rate_limited ?full 103 (get_client_ip ?req) = ((lim1, h1), m1)"
    by (metis prod.exhaust)
  have "fst (fst (is_rate_limited ?full 103 ''10.0.0.1''))"
    by (simp add: is_rate_limited_def buckets_getitem_def Let_def)
  then have l1: "lim1" using e1 ip by simp
  from dispatch_records_only_allowed [OF d1 e1] l1
  have a: "bucket_requests s1 ''10.0.0.1'' = [100, 101, 102]"
    by (simp add: Let_def ip bucket_requests_def)
  obtain r2 s2 l2 where d2: "dispatch ?free [] 103 104 ?next ?req = (r2, s2, l2)"
    by (metis prod.exhaust)
  obtain lim2 h2 m2 where e2: "is_rate_limited ?free 103 (get_client_ip ?req) = ((lim2, h2), m2)"
    by (metis prod.exhaust)
  have "\<not> fst (fst (is_rate_limited ?free 103 ''10.0.0.1''))"
    by (simp add: is_rate_limited_def buckets_getitem_def Let_def)
  then have l2: "\<not> lim2" using e2 ip by simp
  from dispatch_records_only_allowed [OF d2 e2] l2
  have b: "bucket_requests s2 ''10.0.0.1'' = [100, 101, 104]"
    by (simp add: Let_def ip bucket_requests_def)
  show ?thesis using a b d1 d2 by simp
qed

lemma other_all:
  "\<exists>st'. all_summaries_of example_lib example_store other_state 1 1 = (Inr other_listing, st')"
  by (simp add: all_summaries_of_def other_state_def example_state_def new_caches_def
        get_posts_list_cached_def set_posts_list_cached_def ttl_get_def ttl_set_def
        dict_get_def expired_def example_settings_def Let_def POSTS_LIST_CACHE_SIZE_def)

theorem listing_etag_depends_on_total_offset_limit_witness:
  "\<exists>response1 st1 response2 st2.
     list_posts example_lib example_store example_settings example_state 0 0 2 1 = (Inr response1, st1)
     \<and> list_posts example_lib example_store example_settings other_state 1 1 2 1 = (Inr response2, st2)
     \<and> map slug (posts (body response1)) = [''old-post'', ''plain'']
     \<and> map slug (posts (body response2)) = [''b'', ''c'']
     \<and> dict_get (headers response1) ''ETag'' = dict_get (headers response2) ''ETag''"
proof -
  from example_all obtain s1 where
    a1: "all_summaries_of example_lib example_store example_state 0 0 = (Inr example_listing, s1)" ..
  from other_all obtain s2 where
    a2: "all_summaries_of example_lib example_store other_state 1 1 = (Inr other_listing, s2)" ..
  from list_posts_body [OF a1, of example_settings 2 1] obtain r1 where
    r1: "list_posts example_lib example_store example_settings example_state 0 0 2 1 = (Inr r1, s1)" and
    b1: "body r1 = \<lparr>posts = py_slice example_listing 1 (1 + 2),
                    total = int (length example_listing), limit = 2, offset = 1\<rparr>"
    by blast
  from list_posts_body [OF a2, of example_settings 2 1] obtain r2 where
    r2: "list_posts example_lib example_store example_settings other_state 1 1 2 1 = (Inr r2, s2)" and
    b2: "body r2 = \<lparr>posts = py_slice other_listing 1 (1 + 2),
                    total = int (length other_listing), limit = 2, offset = 1\<rparr>"
    by blast
  have t: "total (body r1) = total (body r2)"
    using b1 b2 by (simp add: example_listing_def other_listing_def)
  have p1: "map slug (posts (body r1)) = [''old-post'', ''plain'']"
    using b1 by (simp add: example_listing_def py_slice_def slice_bound_def Let_def)
  have p2: "map slug (posts (body r2)) = [''b'', ''c'']"
    using b2 by (simp add: other_listing_def py_slice_def slice_bound_def Let_def)
  from listing_etag_depends_on_total_offset_limit [OF r1 r2 t]
  have e: "dict_get (headers r1) ''ETag'' = dict_get (headers r2) ''ETag''" by simp
  show ?thesis using r1 r2 p1 p2 e
    by (intro exI [of _ r1] exI [of _ s1] exI [of _ r2] exI [of _ s2]) simp
qed

lemma example_plain_summary:
  "\<exists>st1. load_summary example_lib example_store example_state ''plain''
           = (Inr \<lparr>slug = ''plain'', title = ''plain'', date = [], description = None, tags = []\<rparr>, st1)"
  using example_load_summary(3) [of example_state]
  by (cases "load_summary example_lib example_store example_state ''plain''") simp

lemma example_plain_post:
  "\<exists>response st2. get_post example_lib example_store example_settings example_state 0 0 ''plain''
           = (Inr response, st2)"
  by (simp add: get_post_def SLUG_PATTERN_match_def slug_char_def Let_def get_post_cached_def
        ttl_get_def dict_get_def example_state_def new_caches_def load_post_by_slug_def
        validate_examples example_store_def example_lib_def parse_frontmatter_def
        post_meta_of_def py_str_def truthy_def py_list_def PostMeta_init_def is_PStr_def
        str_of_def)

theorem missing_title_and_date_defaults_witness:
  "\<exists>response st2.
     get_post example_lib example_store example_settings example_state 0 0 ''plain''
       = (Inr response, st2)
     \<and> title (meta (body response)) = ''plain'' \<and> date (meta (body response)) = []
     \<and> date (example_listing ! 2) = [] \<and> date (example_listing ! 3) = []"
proof -
  from example_plain_summary obtain st1 where
    s: "load_summary example_lib example_store example_state ''plain''
          = (Inr \<lparr>slug = ''plain'', title = ''plain'', date = [], description = None, tags = []\<rparr>, st1)" ..
  from example_plain_post obtain response st2 where
    g: "get_post example_lib example_store example_settings example_state 0 0 ''plain''
          = (Inr response, st2)" by blast
  from example_all obtain st3 where
    a: "all_summaries_of example_lib example_store example_state 0 0 = (Inr example_listing, st3)" ..
  have b: "load_backend example_store ''plain'' = Inr ''text''" by (simp add: example_store_def)
  have f: "frontmatter_loads example_lib ''text'' = Some (Map.empty, ''text'')"
    by (simp add: example_lib_def)
  have m: "fst (get_post_cached (caches example_state) 0 ''plain'') = None"
    by (simp add: get_post_cached_def ttl_get_def dict_get_def example_state_def new_caches_def)
  have d2: "date (example_listing ! 2) = []" by (simp add: example_listing_def)
  have len: "(2::nat) < 3 \<and> 3 < length example_listing" by (simp add: example_listing_def)
  from missing_title_and_date_defaults [of example_lib example_store example_state "''plain''"
         "\<lparr>slug = ''plain'', title = ''plain'', date = [], description = None, tags = []\<rparr>"
         st1 "''text''" Map.empty "''text''" example_settings 0 0 response st2 example_listing st3]
       s g a b f m example_miss
  have "title (meta (body response)) = ''plain'' \<and> date (meta (body response)) = []
        \<and> (\<forall>i j. i < j \<and> j < length example_listing \<and> date (example_listing ! i) = [] \<longrightarrow>
               date (example_listing ! j) = [])"
    by auto
  then have "title (meta (body response)) = ''plain''" "date (meta (body response)) = []"
    "date (example_listing ! 3) = []"
    using d2 len by blast+
  then show ?thesis using g d2
    by (intro exI [of _ response] exI [of _ st2]) simp
qed

subsection \<open>A post that fails the whole listing\<close>

lemma validate_short:
  "validate_slug ''gone'' = Inr ''gone''"
  "validate_slug ''t'' = Inr ''t''"
  "validate_slug ''z'' = Inr ''z''"
  by (simp_all add: validate_slug_def SLUG_PATTERN_match_def slug_char_def MAX_SLUG_LENGTH_def Let_def)

lemma tags_load_summary:
  "fst (load_summary tags_lib (tags_store raw) st ''gone'') = Inl (FileNotFoundError ''gone'')"
  "fst (load_summary tags_lib (tags_store ''tags: 5'') st ''t'')
     = Inl (TypeError (CHR 0x27 # ''int'' @ CHR 0x27 # '' object is not iterable''))"
  "fst (load_summary tags_lib (tags_store ''description: 5'') st ''t'') = Inl ValidationError"
  "fst (load_summary tags_lib (tags_store raw) st ''z'')
     = Inr \<lparr>slug = ''z'', title = ''z'', date = [], description = None, tags = []\<rparr>"
  by (simp_all add: load_summary_def load_post_by_slug_def validate_short tags_store_def
        tags_lib_def parse_frontmatter_def post_meta_of_def py_str_def truthy_def py_list_def
        PostMeta_init_def is_PStr_def str_of_def)

lemma load_summaries_tags:
  "fst (load_summaries tags_lib (tags_store ''tags: 5'') st [''gone'', ''t'', ''z''] [])
     = Inl (TypeError (CHR 0x27 # ''int'' @ CHR 0x27 # '' object is not iterable''))"
proof -
  obtain r1 s1 where a: "load_summary tags_lib (tags_store ''tags: 5'') st ''gone'' = (r1, s1)"
    by (cases "load_summary tags_lib (tags_store ''tags: 5'') st ''gone''")
  have r1: "r1 = Inl (FileNotFoundError ''gone'')"
    using tags_load_summary(1) [of "''tags: 5''" st] a by simp
  let ?s1 = "s1\<lparr>logs := logs s1 @ [skip_record ''gone'' (FileNotFoundError ''gone'')]\<rparr>"
  obtain r2 s2 where b: "load_summary tags_lib (tags_store ''tags: 5'') ?s1 ''t'' = (r2, s2)"
    by (cases "load_summary tags_lib (tags_store ''tags: 5'') ?s1 ''t''")
  have r2: "r2 = Inl (TypeError (CHR 0x27 # ''int'' @ CHR 0x27 # '' object is not iterable''))"
    using tags_load_summary(2) [of ?s1] b by simp
  show ?thesis using a r1 b r2 by (simp add: skipped_def skip_record_def)
qed

text \<open>
  A front matter field of the wrong type is skipped when pydantic finds it: with
  \<open>description: 5\<close> in post \<open>t\<close> the listing succeeds without \<open>t\<close> and logs the
  warning.
\<close>

lemma description_five_is_skipped:
  "\<exists>st' response.
     list_posts tags_lib (tags_store ''description: 5'') example_settings example_state 0 0 20 0
       = (Inr response, st')
     \<and> map slug (posts (body response)) = [''z'']
     \<and> skip_record ''t'' ValidationError \<in> set (logs st')"
proof -
  have sl: "list_post_slugs (tags_store ''description: 5'') = Inr [''gone'', ''t'', ''z'']"
    by (simp add: tags_store_def)
  have sk: "\<forall>sl \<in> set [''gone'', ''t'', ''z''].
     \<forall>e. fst (load_summary tags_lib (tags_store ''description: 5'') example_state sl) = Inl e
           \<longrightarrow> skipped e"
    by (auto simp: tags_load_summary skipped_def)
  have mf: "sort_reverse date (List.map_filter
              (summary_of tags_lib (tags_store ''description: 5'') example_state)
              [''gone'', ''t'', ''z''])
            = [\<lparr>slug = ''z'', title = ''z'', date = [], description = None, tags = []\<rparr>]"
    by (simp add: summary_of_def tags_load_summary sort_reverse_def)
  from all_summaries_of_skips [OF example_miss sl sk, of 0] obtain st' where
    a: "all_summaries_of tags_lib (tags_store ''description: 5'') example_state 0 0
          = (Inr (sort_reverse date (List.map_filter
              (summary_of tags_lib (tags_store ''description: 5'') example_state)
              [''gone'', ''t'', ''z''])), st')" and
    l: "\<forall>sl \<in> set [''gone'', ''t'', ''z''].
          \<forall>e. fst (load_summary tags_lib (tags_store ''description: 5'') example_state sl) = Inl e
             \<longrightarrow> skip_record sl e \<in> set (logs st')"
    by blast
  from list_posts_body [OF a [unfolded mf], of example_settings 20 0] obtain response where
    r: "list_posts tags_lib (tags_store ''description: 5'') example_settings example_state 0 0 20 0
          = (Inr response, st')" and
    b: "body response = \<lparr>posts = py_slice
            [\<lparr>slug = ''z'', title = ''z'', date = [], description = None, tags = []\<rparr>] 0 (0 + 20),
          total = int (length [\<lparr>slug = ''z'', title = ''z'', date = [], description = None,
                                 tags = []\<rparr>]),
          limit = 20, offset = 0\<rparr>"
    by blast
  have p: "map slug (posts (body response)) = [''z'']"
    using b by (simp add: py_slice_def slice_bound_def Let_def)
  have w: "skip_record ''t'' ValidationError \<in> set (logs st')"
    using l tags_load_summary(3) [of example_state] by simp
  show ?thesis using r p w by (intro exI [of _ st'] exI [of _ response]) simp
qed

text \<open>
  C8. One bad post can fail the whole listing. With \<open>tags: 5\<close> in the front matter
  of post \<open>t\<close>, \<open>list(5)\<close> raises \<open>TypeError\<close> while the arguments of the summary
  are evaluated; the \<open>except\<close> clause of the loop catches only \<open>ValueError\<close> and
  \<open>FileNotFoundError\<close>, so \<open>list_posts\<close> ends with the \<open>TypeError\<close> although
  \<open>gone\<close> fails with a not-found error that is skipped and \<open>z\<close> loads.
\<close>

theorem listing_fails_on_uniterable_tags:
  "fst (list_posts tags_lib (tags_store ''tags: 5'') example_settings example_state 0 0 20 0)
     = Inl (TypeError (CHR 0x27 # ''int'' @ CHR 0x27 # '' object is not iterable''))
   \<and> fst (load_summary tags_lib (tags_store ''tags: 5'') example_state ''gone'')
       = Inl (FileNotFoundError ''gone'')
   \<and> fst (load_summary tags_lib (tags_store ''tags: 5'') example_state ''z'')
       = Inr \<lparr>slug = ''z'', title = ''z'', date = [], description = None, tags = []\<rparr>"
proof -
  obtain cs where g: "get_posts_list_cached (caches example_state) 0 = (None, cs)"
    using example_miss by (cases "get_posts_list_cached (caches example_state) 0") simp
  let ?st = "example_state\<lparr>caches := cs\<rparr>"
  obtain r s where l: "load_summaries tags_lib (tags_store ''tags: 5'') ?st
                         [''gone'', ''t'', ''z''] [] = (r, s)"
    by (cases "load_summaries tags_lib (tags_store ''tags: 5'') ?st [''gone'', ''t'', ''z''] []")
  have r: "r = Inl (TypeError (CHR 0x27 # ''int'' @ CHR 0x27 # '' object is not iterable''))"
    using load_summaries_tags [of ?st] l by simp
  have "fst (all_summaries_of tags_lib (tags_store ''tags: 5'') example_state 0 0)
          = Inl (TypeError (CHR 0x27 # ''int'' @ CHR 0x27 # '' object is not iterable''))"
    using g l r by (simp add: all_summaries_of_def Let_def tags_store_def)
  then have "fst (list_posts tags_lib (tags_store ''tags: 5'') example_settings example_state 0 0 20 0)
     = Inl (TypeError (CHR 0x27 # ''int'' @ CHR 0x27 # '' object is not iterable''))"
    by (cases "all_summaries_of tags_lib (tags_store ''tags: 5'') example_state 0 0")
       (simp add: list_posts_def)
  then show ?thesis
    using tags_load_summary(1) [of "''tags: 5''" example_state]
          tags_load_summary(4) [of "''tags: 5''" example_state] by simp
qed

end
